theory Spec2Isabelle
  imports Main "HOL-Library.Word"
begin

section \<open>The job-control shell \<open>stsh\<close>\<close>

text \<open>
  The development follows \<^verbatim>\<open>src/stsh.cc\<close> (the second, complete version of the file:
  the one that defines \<^verbatim>\<open>builtinFg\<close>, \<^verbatim>\<open>builtinBg\<close>, \<^verbatim>\<open>builtinSignals\<close>, the three signal
  handlers and \<^verbatim>\<open>transferTerminalControl\<close>).

  The shell's one piece of global data, \<^verbatim>\<open>joblist\<close>, is passed explicitly: every function
  takes the job list and returns the job list it leaves behind. What a function asks of the
  operating system (\<^verbatim>\<open>kill\<close>, \<^verbatim>\<open>sigprocmask\<close>, \<^verbatim>\<open>sigsuspend\<close>, \<^verbatim>\<open>tcsetpgrp\<close>, \<^verbatim>\<open>waitpid\<close>,
  \<^verbatim>\<open>fork\<close>, output on \<^verbatim>\<open>cout\<close>) is recorded, in order, in a list of events. What the operating
  system answers (the results of \<^verbatim>\<open>waitpid\<close>, \<^verbatim>\<open>fork\<close> and \<^verbatim>\<open>tcsetpgrp\<close>, the signals delivered
  while the shell sleeps in \<^verbatim>\<open>sigsuspend\<close>) is an argument of the function.

  A signal handler is a function of the job list like the others. Inside \<^verbatim>\<open>createJob\<close> and
  \<^verbatim>\<open>builtinFg\<close> the handlers run where the function sleeps in \<^verbatim>\<open>sigsuspend\<close>, one delivered
  signal for each call; a signal that arrives at another moment (the shell at its prompt)
  is a call of \<open>handle_signal\<close> between two commands.

  The classes \<^verbatim>\<open>STSHJobList\<close>, \<^verbatim>\<open>STSHJob\<close> and \<^verbatim>\<open>STSHProcess\<close> are used by \<^verbatim>\<open>stsh.cc\<close> but
  defined outside it; their operations are modelled from the specification's description
  of the job list, each marked as such.
\<close>

subsection \<open>Processes, jobs and the pipeline\<close>

datatype STSHProcessState = kRunning | kStopped | kTerminated

datatype STSHJobState = kForeground | kBackground

text \<open>One command of a pipeline: the program name and its NULL-terminated token array
  (the list holds the tokens before the terminating NULL).\<close>

record command =
  command :: string
  tokens :: "string list"

record pipeline =
  commands :: "command list"
  input_path :: string
  output_path :: string
  background :: bool

record STSHProcess =
  pid :: int
  pstate :: STSHProcessState
  pcommand :: command

record STSHJob =
  num :: int
  jstate :: STSHJobState
  processes :: "STSHProcess list"

text \<open>The job list is a mapping from job id to job; it is kept as the list of its jobs in
  ascending order of their ids, the order in which the map is traversed.\<close>

type_synonym STSHJobList = "STSHJob list"

subsection \<open>Signals, events and outcomes\<close>

datatype signal = SIGINT | SIGTSTP | SIGCONT | SIGCHLD

text \<open>The status \<^verbatim>\<open>waitpid\<close> stores for a child, by the one of the four macros
  \<^verbatim>\<open>WIFEXITED\<close>, \<^verbatim>\<open>WIFSIGNALED\<close>, \<^verbatim>\<open>WIFSTOPPED\<close>, \<^verbatim>\<open>WIFCONTINUED\<close> that holds of it.\<close>

datatype wstatus = Exited int | Signaled int | Stopped int | Continued

definition WIFEXITED :: "wstatus \<Rightarrow> bool" where
  "WIFEXITED s = (case s of Exited _ \<Rightarrow> True | _ \<Rightarrow> False)"

definition WIFSIGNALED :: "wstatus \<Rightarrow> bool" where
  "WIFSIGNALED s = (case s of Signaled _ \<Rightarrow> True | _ \<Rightarrow> False)"

definition WIFSTOPPED :: "wstatus \<Rightarrow> bool" where
  "WIFSTOPPED s = (case s of Stopped _ \<Rightarrow> True | _ \<Rightarrow> False)"

definition WIFCONTINUED :: "wstatus \<Rightarrow> bool" where
  "WIFCONTINUED s = (case s of Continued \<Rightarrow> True | _ \<Rightarrow> False)"

text \<open>The flags of the reaper's \<^verbatim>\<open>waitpid\<close> call.\<close>

datatype wait_option = WNOHANG | WUNTRACED | WCONTINUED

text \<open>The system calls and the output the shell process performs.\<close>

datatype event =
    Kill int signal
  | Sigprocmask_block "signal list"
  | Sigprocmask_unblock "signal list"
  | Sigsuspend
  | Tcsetpgrp int
  | Waitpid int "wait_option list"
  | Fork
  | Cout string
  | Cout_joblist "STSHJob list"

text \<open>What is thrown: an \<^verbatim>\<open>STSHException\<close> with the message \<^verbatim>\<open>stsh.cc\<close> gives it, or the
  failure of a lookup in the job list.\<close>

datatype failure = STSHException string | NotFound

text \<open>How a function of the shell ends: it returns; it throws; the shell sleeps in
  \<^verbatim>\<open>sigsuspend\<close> and no further signal arrives; an \<^verbatim>\<open>assert\<close> fails; the process calls
  \<^verbatim>\<open>exit\<close>; \<^verbatim>\<open>fork\<close> returned 0, so this process is the child of the given command and goes on
  to \<^verbatim>\<open>execvp\<close>; or the pipeline has no command and \<^verbatim>\<open>commands[0]\<close> is read out of range.\<close>

datatype 'a outcome =
    Returned 'a
  | Thrown failure
  | Suspended
  | Aborted
  | Exit_called int
  | Child nat
  | Undefined_read

type_synonym 'a run = "'a outcome \<times> STSHJobList \<times> event list"

subsection \<open>The job list (\<^verbatim>\<open>stsh-job-list.h\<close>, \<^verbatim>\<open>stsh-job.h\<close>, \<^verbatim>\<open>stsh-process.h\<close>)\<close>

text \<open>Modelled from the spec: \<^verbatim>\<open>STSHJob::containsProcess(pid)\<close>, whose source is not part of
  the repository's files; the job owns the pid when one of its processes has it.\<close>

definition job_containsProcess :: "STSHJob \<Rightarrow> int \<Rightarrow> bool" where
  "job_containsProcess j p = (p \<in> set (map pid (processes j)))"

text \<open>Modelled from the spec: \<^verbatim>\<open>STSHJob::getProcess(pid)\<close>, whose source is missing; the
  process of the job with that pid, none when the job has no such process.\<close>

definition job_getProcess :: "STSHJob \<Rightarrow> int \<Rightarrow> STSHProcess option" where
  "job_getProcess j p = find (\<lambda>q. pid q = p) (processes j)"

text \<open>Modelled from the spec: \<^verbatim>\<open>STSHJobList::containsJob(id)\<close>, whose source is missing.\<close>

definition containsJob :: "STSHJobList \<Rightarrow> int \<Rightarrow> bool" where
  "containsJob jl n = (n \<in> set (map num jl))"

text \<open>Modelled from the spec: \<^verbatim>\<open>STSHJobList::getJob(id)\<close>, whose source is missing; it fails
  with NotFound (here: \<open>None\<close>) if the id is absent.\<close>

definition getJob :: "STSHJobList \<Rightarrow> int \<Rightarrow> STSHJob option" where
  "getJob jl n = find (\<lambda>j. num j = n) jl"

text \<open>Modelled from the spec: \<^verbatim>\<open>STSHJobList::containsProcess(pid)\<close>, whose source is
  missing; the list tracks a pid when one of its jobs owns it.\<close>

definition containsProcess :: "STSHJobList \<Rightarrow> int \<Rightarrow> bool" where
  "containsProcess jl p = list_ex (\<lambda>j. job_containsProcess j p) jl"

text \<open>Modelled from the spec: \<^verbatim>\<open>STSHJobList::getJobWithProcess(pid)\<close>, whose source is
  missing; the job that owns the pid, failing with NotFound (here: \<open>None\<close>) if absent.\<close>

definition getJobWithProcess :: "STSHJobList \<Rightarrow> int \<Rightarrow> STSHJob option" where
  "getJobWithProcess jl p = find (\<lambda>j. job_containsProcess j p) jl"

text \<open>Modelled from the spec: \<^verbatim>\<open>STSHJobList::hasForegroundJob()\<close>, whose source is missing.\<close>

definition hasForegroundJob :: "STSHJobList \<Rightarrow> bool" where
  "hasForegroundJob jl = list_ex (\<lambda>j. jstate j = kForeground) jl"

text \<open>Modelled from the spec: \<^verbatim>\<open>STSHJobList::getForegroundJob()\<close>, whose source is missing;
  the job in the foreground slot, failing (here: \<open>None\<close>) if there is none.\<close>

definition getForegroundJob :: "STSHJobList \<Rightarrow> STSHJob option" where
  "getForegroundJob jl = find (\<lambda>j. jstate j = kForeground) jl"

text \<open>Modelled from the spec: the id allocation of \<^verbatim>\<open>STSHJobList::addJob\<close>, whose source is
  missing: the smallest positive integer not currently in use. Among the first
  \<open>length jl + 1\<close> positive integers one is always free.\<close>

definition fresh_num :: "STSHJobList \<Rightarrow> int" where
  "fresh_num jl =
     (case find (\<lambda>k. \<not> containsJob jl k) (map int [1..<length jl + 2]) of
        Some k \<Rightarrow> k
      | None \<Rightarrow> int (length jl) + 1)"

text \<open>Modelled from the spec: \<^verbatim>\<open>STSHJobList::addJob(class)\<close>, whose source is missing; it
  allocates an id and adds a job of the given scheduling class with no process yet. The
  result is the new list and the id of the new job (the source gets a reference to the job).\<close>

definition addJob :: "STSHJobList \<Rightarrow> STSHJobState \<Rightarrow> STSHJobList \<times> int" where
  "addJob jl st =
     (let n = fresh_num jl
      in (insort_key num \<lparr>num = n, jstate = st, processes = []\<rparr> jl, n))"

text \<open>A reference to a job of the list is its id: an update through the reference changes the
  job with that id.\<close>

definition update_job :: "STSHJobList \<Rightarrow> int \<Rightarrow> (STSHJob \<Rightarrow> STSHJob) \<Rightarrow> STSHJobList" where
  "update_job jl n f = map (\<lambda>j. if num j = n then f j else j) jl"

text \<open>Modelled from the spec: \<^verbatim>\<open>STSHJob::addProcess\<close>, whose source is missing; the
  processes of a job are in pipeline order.\<close>

definition addProcess :: "STSHJob \<Rightarrow> STSHProcess \<Rightarrow> STSHJob" where
  "addProcess j p = j\<lparr>processes := processes j @ [p]\<rparr>"

text \<open>\<^verbatim>\<open>job.getProcess(pid).setState(stat)\<close>: the first process of the job with that pid
  changes its state.\<close>

fun setState_of :: "int \<Rightarrow> STSHProcessState \<Rightarrow> STSHProcess list \<Rightarrow> STSHProcess list" where
  "setState_of p st [] = []"
| "setState_of p st (q # qs) =
     (if pid q = p then q\<lparr>pstate := st\<rparr> # qs else q # setState_of p st qs)"

text \<open>Modelled from the spec: \<^verbatim>\<open>STSHJobList::synchronize(job)\<close>, whose source is missing. It
  re-derives the job's aggregate state from its processes: a job whose processes are all
  Terminated is removed from the list (its id is free again, and the foreground slot is
  empty if the job held it); a job that is left with no Running process (it was stopped) is
  demoted to Background and stays in the list; a job with a Running process keeps its
  scheduling class.\<close>

definition synchronize :: "STSHJobList \<Rightarrow> int \<Rightarrow> STSHJobList" where
  "synchronize jl n =
     (case getJob jl n of
        None \<Rightarrow> jl
      | Some j \<Rightarrow>
          if list_all (\<lambda>p. pstate p = kTerminated) (processes j)
          then filter (\<lambda>j'. num j' \<noteq> n) jl
          else if list_ex (\<lambda>p. pstate p = kRunning) (processes j)
          then jl
          else update_job jl n (\<lambda>j'. j'\<lparr>jstate := kBackground\<rparr>))"

subsection \<open>The C library: \<^verbatim>\<open>atoi\<close> and \<^verbatim>\<open>to_string\<close>\<close>

definition isspace :: "char \<Rightarrow> bool" where
  "isspace c = (of_char c \<in> set [32, 9, 10, 11, 12, 13 :: nat])"

definition isdigit :: "char \<Rightarrow> bool" where
  "isdigit c = (48 \<le> (of_char c :: nat) \<and> (of_char c :: nat) \<le> 57)"

text \<open>The value of the longest prefix of decimal digits, accumulated from the left.\<close>

fun digits_value :: "int \<Rightarrow> string \<Rightarrow> int" where
  "digits_value acc [] = acc"
| "digits_value acc (c # cs) =
     (if isdigit c then digits_value (acc * 10 + (of_char c - 48)) cs else acc)"

text \<open>\<^verbatim>\<open>strtol(s, NULL, 10)\<close> on a 64-bit \<^verbatim>\<open>long\<close>: leading white space is skipped, one sign
  is read, then the digits; with no digit the value is 0; a value out of range is
  \<^verbatim>\<open>LONG_MIN\<close> or \<^verbatim>\<open>LONG_MAX\<close>.\<close>

definition strtol :: "string \<Rightarrow> int" where
  "strtol s =
     (let t = dropWhile isspace s;
          v = (case t of
                 [] \<Rightarrow> 0
               | c # cs \<Rightarrow>
                   if c = CHR ''-'' then - digits_value 0 cs
                   else if c = CHR ''+'' then digits_value 0 cs
                   else digits_value 0 t)
      in max (- (2 ^ 63)) (min (2 ^ 63 - 1) v))"

text \<open>\<^verbatim>\<open>atoi(s)\<close> is \<^verbatim>\<open>(int) strtol(s, NULL, 10)\<close>: the low 32 bits, read as a signed number.\<close>

definition atoi :: "string \<Rightarrow> int" where
  "atoi s = sint (word_of_int (strtol s) :: 32 word)"

fun digits_of :: "nat \<Rightarrow> string" where
  "digits_of n =
     (if n < 10 then [char_of (48 + n)]
      else digits_of (n div 10) @ [char_of (48 + n mod 10)])"

text \<open>\<^verbatim>\<open>std::to_string\<close> of an \<^verbatim>\<open>int\<close>: the decimal digits, after a minus sign for a negative
  number.\<close>

definition to_string :: "int \<Rightarrow> string" where
  "to_string i = (if i < 0 then CHR ''-'' # digits_of (nat (- i)) else digits_of (nat i))"

text \<open>\<^verbatim>\<open>tokens[k]\<close> of a NULL-terminated token array: \<open>None\<close> is the NULL pointer.\<close>

definition token :: "command \<Rightarrow> nat \<Rightarrow> string option" where
  "token c k = (if k < length (tokens c) then Some (tokens c ! k) else None)"


subsection \<open>Terminal ownership\<close>

definition ENOTTY :: int where
  "ENOTTY = 25"

text \<open>\<^verbatim>\<open>transferTerminalControl(pgid)\<close>. The answer of \<^verbatim>\<open>tcsetpgrp\<close> is the pair of its
  return value and of \<^verbatim>\<open>errno\<close> after the call; the descriptor of the call is always
  \<^verbatim>\<open>STDIN_FILENO\<close>.\<close>

definition transferTerminalControl :: "int \<times> int \<Rightarrow> int \<Rightarrow> unit outcome \<times> event list" where
  "transferTerminalControl answer pgid =
     (let err = fst answer; errno = snd answer
      in if err = - 1 \<and> errno \<noteq> ENOTTY
         then (Thrown (STSHException ''tcsetpgrp: A serious problem happens''), [Tcsetpgrp pgid])
         else (Returned (), [Tcsetpgrp pgid]))"

subsection \<open>The signal handlers\<close>

text \<open>\<^verbatim>\<open>changeProcessStatus(pid, stat)\<close>.\<close>

definition changeProcessStatus ::
  "STSHJobList \<Rightarrow> int \<Rightarrow> STSHProcessState \<Rightarrow> unit outcome \<times> STSHJobList" where
  "changeProcessStatus jl p stat =
     (case getJobWithProcess jl p of
        None \<Rightarrow> (Thrown NotFound, jl)
      | Some job \<Rightarrow>
          if \<not> job_containsProcess job p then (Aborted, jl)
          else (case job_getProcess job p of
                  None \<Rightarrow> (Thrown NotFound, jl)
                | Some proc \<Rightarrow>
                    (Returned (),
                     synchronize
                       (update_job jl (num job)
                          (\<lambda>j. j\<lparr>processes := setState_of p stat (processes j)\<rparr>))
                       (num job))))"

text \<open>\<^verbatim>\<open>sigIntStopHandler(sig)\<close>: the job list is only read; the result is how the handler
  ends and the list of its \<^verbatim>\<open>kill\<close> calls.\<close>

definition sigIntStopHandler :: "STSHJobList \<Rightarrow> signal \<Rightarrow> unit outcome \<times> event list" where
  "sigIntStopHandler jl sig =
     (if hasForegroundJob jl
      then (case getForegroundJob jl of
              None \<Rightarrow> (Thrown NotFound, [])
            | Some job \<Rightarrow> (Returned (), map (\<lambda>proc. Kill (pid proc) sig) (processes job)))
      else (Returned (), []))"

text \<open>One statement of the reaper's loop body runs if the one before it returned.\<close>

definition and_then ::
  "unit outcome \<times> STSHJobList \<Rightarrow> (STSHJobList \<Rightarrow> unit outcome \<times> STSHJobList)
     \<Rightarrow> unit outcome \<times> STSHJobList" where
  "and_then r f = (case r of (Returned u, jl) \<Rightarrow> f jl | (out, jl) \<Rightarrow> (out, jl))"

text \<open>The three \<^verbatim>\<open>if\<close> statements of the loop body of \<^verbatim>\<open>sigchildHandler\<close>, for a pid
  that \<^verbatim>\<open>waitpid\<close> returned with its status.\<close>

definition reap_one :: "STSHJobList \<Rightarrow> int \<Rightarrow> wstatus \<Rightarrow> unit outcome \<times> STSHJobList" where
  "reap_one jl p status =
     and_then
       (and_then
          (if WIFEXITED status \<or> WIFSIGNALED status
           then changeProcessStatus jl p kTerminated else (Returned (), jl))
          (\<lambda>jl1. if WIFSTOPPED status
                  then changeProcessStatus jl1 p kStopped else (Returned (), jl1)))
       (\<lambda>jl2. if WIFCONTINUED status
               then changeProcessStatus jl2 p kRunning else (Returned (), jl2))"

definition reaper_wait :: event where
  "reaper_wait = Waitpid (- 1) [WNOHANG, WUNTRACED, WCONTINUED]"

text \<open>\<^verbatim>\<open>sigchildHandler(sig)\<close>. Its second argument is what the successive calls of
  \<^verbatim>\<open>waitpid\<close> return, each a pid with the status stored for it; when the list is used up
  the next call returns \<open>-1\<close> (there is no child left to wait for).\<close>

fun sigchildHandler :: "STSHJobList \<Rightarrow> (int \<times> wstatus) list \<Rightarrow> unit run" where
  "sigchildHandler jl [] = (Returned (), jl, [reaper_wait])"
| "sigchildHandler jl ((p, status) # rest) =
     (if p \<le> 0 then (Returned (), jl, [reaper_wait])
      else (case reap_one jl p status of
              (Returned u, jl') \<Rightarrow>
                (case sigchildHandler jl' rest of (out, jl'', evs) \<Rightarrow> (out, jl'', reaper_wait # evs))
            | (out, jl') \<Rightarrow> (out, jl', [reaper_wait])))"

subsection \<open>Signals delivered while the shell sleeps\<close>

text \<open>A signal delivered to the shell, as \<^verbatim>\<open>installSignalHandlers\<close> routes it: \<^verbatim>\<open>SIGCHLD\<close>
  (with what \<^verbatim>\<open>waitpid\<close> will return to the handler), \<^verbatim>\<open>SIGINT\<close>, \<^verbatim>\<open>SIGTSTP\<close> or
  \<^verbatim>\<open>SIGQUIT\<close>.\<close>

datatype delivery =
    Delivered_SIGCHLD "(int \<times> wstatus) list"
  | Delivered_SIGINT
  | Delivered_SIGTSTP
  | Delivered_SIGQUIT

fun handle_signal :: "STSHJobList \<Rightarrow> delivery \<Rightarrow> unit run" where
  "handle_signal jl (Delivered_SIGCHLD answers) = sigchildHandler jl answers"
| "handle_signal jl Delivered_SIGINT =
     (case sigIntStopHandler jl SIGINT of (out, evs) \<Rightarrow> (out, jl, evs))"
| "handle_signal jl Delivered_SIGTSTP =
     (case sigIntStopHandler jl SIGTSTP of (out, evs) \<Rightarrow> (out, jl, evs))"
| "handle_signal jl Delivered_SIGQUIT = (Exit_called 0, jl, [])"

text \<open>\<^verbatim>\<open>while(joblist.hasForegroundJob()) sigsuspend(&existingmask);\<close> of \<^verbatim>\<open>builtinFg\<close>.
  Each \<^verbatim>\<open>sigsuspend\<close> returns after the handler of one delivered signal has run; when no
  signal is left to deliver the shell sleeps for ever.\<close>

fun fg_wait :: "STSHJobList \<Rightarrow> delivery list \<Rightarrow> unit run" where
  "fg_wait jl [] =
     (if hasForegroundJob jl then (Suspended, jl, [Sigsuspend]) else (Returned (), jl, []))"
| "fg_wait jl (d # ds) =
     (if hasForegroundJob jl
      then (case handle_signal jl d of
              (Returned u, jl', evs) \<Rightarrow>
                (case fg_wait jl' ds of (out, jl'', evs') \<Rightarrow> (out, jl'', Sigsuspend # evs @ evs'))
            | (out, jl', evs) \<Rightarrow> (out, jl', Sigsuspend # evs))
      else (Returned (), jl, []))"

text \<open>The loop of \<^verbatim>\<open>createJob\<close>, which sleeps while the foreground job is the job with the
  number \<open>n\<close> of the job just created.\<close>

definition is_foreground :: "STSHJobList \<Rightarrow> int \<Rightarrow> bool" where
  "is_foreground jl n =
     (hasForegroundJob jl \<and> map_option num (getForegroundJob jl) = Some n)"

fun launch_wait :: "int \<Rightarrow> STSHJobList \<Rightarrow> delivery list \<Rightarrow> unit run" where
  "launch_wait n jl [] =
     (if is_foreground jl n then (Suspended, jl, [Sigsuspend]) else (Returned (), jl, []))"
| "launch_wait n jl (d # ds) =
     (if is_foreground jl n
      then (case handle_signal jl d of
              (Returned u, jl', evs) \<Rightarrow>
                (case launch_wait n jl' ds of
                   (out, jl'', evs') \<Rightarrow> (out, jl'', Sigsuspend # evs @ evs'))
            | (out, jl', evs) \<Rightarrow> (out, jl', Sigsuspend # evs))
      else (Returned (), jl, []))"

subsection \<open>The builtins\<close>

definition newline :: string where
  "newline = [CHR 0x0A]"

text \<open>The two branches of \<^verbatim>\<open>builtinFg\<close> on the state of the job: a foreground job has
  \<^verbatim>\<open>SIGCONT\<close> sent to each of its processes; any other job that has a process is set to
  \<^verbatim>\<open>kForeground\<close> (through the reference \<^verbatim>\<open>job\<close>) and \<^verbatim>\<open>SIGCONT\<close> is sent to the negated pid of
  its first process.\<close>

definition fg_resume :: "STSHJobList \<Rightarrow> STSHJob \<Rightarrow> STSHJobList \<times> event list" where
  "fg_resume jl job =
     (if jstate job = kForeground
      then (jl, map (\<lambda>proc. Kill (pid proc) SIGCONT) (processes job))
      else (case processes job of
              [] \<Rightarrow> (jl, [])
            | proc0 # procs \<Rightarrow>
                (update_job jl (num job) (\<lambda>j. j\<lparr>jstate := kForeground\<rparr>),
                 [Kill (- pid proc0) SIGCONT])))"

text \<open>A call that follows a loop of \<^verbatim>\<open>sigsuspend\<close> is made if the loop was left.\<close>

definition on_return :: "unit outcome \<Rightarrow> event list \<Rightarrow> event list" where
  "on_return out evs = (case out of Returned u \<Rightarrow> evs | _ \<Rightarrow> [])"

text \<open>\<^verbatim>\<open>builtinFg(pipeline)\<close>. The signal set lists the signals in the order of the
  \<^verbatim>\<open>sigaddset\<close> calls.\<close>

definition builtinFg :: "STSHJobList \<Rightarrow> pipeline \<Rightarrow> delivery list \<Rightarrow> unit run" where
  "builtinFg jl p ds =
     (case commands p of
        [] \<Rightarrow> (Undefined_read, jl, [])
      | c # cs \<Rightarrow>
          (case token c 0 of
             None \<Rightarrow> (Thrown (STSHException ''Usage: fg <jobid>.''), jl, [])
           | Some arg \<Rightarrow>
               if arg = ''0'' then (Thrown (STSHException ''fg 0: No such job.''), jl, [])
               else
                 let jobid = atoi arg in
                 if jobid = 0 then (Thrown (STSHException ''Usage: fg <jobid>.''), jl, [])
                 else if \<not> containsJob jl jobid
                 then (Thrown (STSHException (''fg '' @ to_string jobid @ '': No such job.'')),
                       jl, [Cout (''jobid: '' @ to_string jobid @ newline)])
                 else
                   (case getJob jl jobid of
                      None \<Rightarrow>
                        (Thrown NotFound, jl, [Sigprocmask_block [SIGINT, SIGTSTP, SIGCONT, SIGCHLD]])
                    | Some job \<Rightarrow>
                        (case fg_resume jl job of
                           (jl1, kills) \<Rightarrow>
                             (case fg_wait jl1 ds of
                                (out, jl2, evs) \<Rightarrow>
                                  (out, jl2,
                                   [Sigprocmask_block [SIGINT, SIGTSTP, SIGCONT, SIGCHLD]]
                                   @ kills @ evs
                                   @ on_return out
                                       [Sigprocmask_unblock [SIGINT, SIGTSTP, SIGCONT, SIGCHLD]]))))))"

text \<open>\<^verbatim>\<open>builtinBg(pipeline)\<close>.\<close>

definition builtinBg :: "STSHJobList \<Rightarrow> pipeline \<Rightarrow> unit run" where
  "builtinBg jl p =
     (case commands p of
        [] \<Rightarrow> (Undefined_read, jl, [])
      | c # cs \<Rightarrow>
          (case token c 0 of
             None \<Rightarrow> (Thrown (STSHException ''Usage: bg <jobid>.''), jl, [])
           | Some arg \<Rightarrow>
               if arg = ''0'' then (Thrown (STSHException ''fg 0: No such job.''), jl, [])
               else
                 let jobid = atoi arg in
                 if jobid = 0 then (Thrown (STSHException ''Usage: fg <jobid>.''), jl, [])
                 else if \<not> containsJob jl jobid
                 then (Thrown (STSHException (''fg '' @ to_string jobid @ '': No such job.'')),
                       jl, [Cout (''jobid: '' @ to_string jobid @ newline)])
                 else (case getJob jl jobid of
                         None \<Rightarrow> (Thrown NotFound, jl, [])
                       | Some job \<Rightarrow>
                           (Returned (), jl,
                            map (\<lambda>proc. Kill (pid proc) SIGCONT) (processes job)))))"







subsection \<open>Launching a pipeline\<close>

text \<open>What the operating system answers to \<^verbatim>\<open>createJob\<close>: the pid the \<open>i\<close>-th \<^verbatim>\<open>fork\<close>
  returns, the answer of \<^verbatim>\<open>tcsetpgrp\<close> (return value and \<^verbatim>\<open>errno\<close>) for a process group, and
  \<^verbatim>\<open>getpgid(getpid())\<close>, the shell's own process group.\<close>

record system =
  fork_answer :: "nat \<Rightarrow> int"
  tcsetpgrp_answer :: "int \<Rightarrow> int \<times> int"
  shell_pgid :: int

text \<open>The loop over the commands, in the process that called \<^verbatim>\<open>createJob\<close>: command \<open>i\<close> is
  forked and its process added to job \<open>n\<close>. Where \<^verbatim>\<open>fork\<close> returns 0 the process is the child:
  it wires its descriptors (\<open>child_fd_ops\<close> below) and calls \<^verbatim>\<open>execvp\<close>.\<close>

fun fork_commands :: "(nat \<Rightarrow> int) \<Rightarrow> int \<Rightarrow> nat \<Rightarrow> command list \<Rightarrow> STSHJobList \<Rightarrow> unit run" where
  "fork_commands fk n i [] jl = (Returned (), jl, [])"
| "fork_commands fk n i (c # cs) jl =
     (let jl' = update_job jl n
                  (\<lambda>j. addProcess j \<lparr>pid = fk i, pstate = kRunning, pcommand = c\<rparr>)
      in if fk i = 0 then (Child i, jl', [Fork])
         else (case fork_commands fk n (Suc i) cs jl' of
                 (out, jl'', evs) \<Rightarrow> (out, jl'', Fork # evs)))"

text \<open>The line the launcher prints for a background job.\<close>

definition background_notice :: "int \<Rightarrow> STSHProcess list \<Rightarrow> string" where
  "background_notice n ps =
     ''['' @ to_string n @ ''] '' @ concat (map (\<lambda>proc. to_string (pid proc) @ '' '') ps) @ newline"

text \<open>The block of \<^verbatim>\<open>createJob\<close> for a foreground pipeline: the signals are blocked, the
  terminal is handed to the process group if the list has a foreground job, and the shell
  sleeps while job \<open>n\<close> is the foreground job.\<close>

definition launch_foreground ::
  "int \<Rightarrow> int \<Rightarrow> STSHJobList \<Rightarrow> system \<Rightarrow> delivery list \<Rightarrow> unit run" where
  "launch_foreground n groupid jl os ds =
     (case (if hasForegroundJob jl
            then transferTerminalControl (tcsetpgrp_answer os groupid) groupid
            else (Returned (), [])) of
        (Returned u, tc) \<Rightarrow>
          (case launch_wait n jl ds of
             (out, jl', evs) \<Rightarrow>
               (out, jl',
                [Sigprocmask_block [SIGCHLD, SIGINT, SIGTSTP, SIGCONT]] @ tc @ evs
                @ on_return out [Sigprocmask_unblock [SIGCHLD, SIGINT, SIGTSTP, SIGCONT]]))
      | (out, tc) \<Rightarrow> (out, jl, [Sigprocmask_block [SIGCHLD, SIGINT, SIGTSTP, SIGCONT]] @ tc))"

text \<open>The block for a background pipeline: the job number and the pids are printed.\<close>

definition launch_background :: "int \<Rightarrow> STSHJobList \<Rightarrow> unit run" where
  "launch_background n jl =
     (case getJob jl n of
        None \<Rightarrow> (Undefined_read, jl, [])
      | Some job \<Rightarrow> (Returned (), jl, [Cout (background_notice n (processes job))]))"

text \<open>\<^verbatim>\<open>createJob(p)\<close>, for the process control and the terminal. The calls on descriptors
  (\<^verbatim>\<open>pipe\<close>, \<^verbatim>\<open>open\<close>, \<^verbatim>\<open>dup2\<close>, \<^verbatim>\<open>close\<close>) are the subject of the next subsection and leave no
  event here. The reference \<^verbatim>\<open>job\<close> is the number \<open>n\<close> that \<open>addJob\<close> allocated; signals are
  delivered where the function sleeps in \<^verbatim>\<open>sigsuspend\<close>.\<close>

definition createJob :: "STSHJobList \<Rightarrow> pipeline \<Rightarrow> system \<Rightarrow> delivery list \<Rightarrow> unit run" where
  "createJob jl p os ds =
     (case commands p of
        [] \<Rightarrow> (Undefined_read, jl, [])
      | c0 # cs \<Rightarrow>
          (case addJob jl (if background p then kBackground else kForeground) of
             (jl0, n) \<Rightarrow>
               (case fork_commands (fork_answer os) n 0 (commands p) jl0 of
                  (Returned u, jl1, forks) \<Rightarrow>
                    (case (if \<not> background p
                           then launch_foreground n (fork_answer os 0) jl1 os ds
                           else launch_background n jl1) of
                       (Returned u', jl2, evs) \<Rightarrow>
                         (case transferTerminalControl
                                 (tcsetpgrp_answer os (shell_pgid os)) (shell_pgid os) of
                            (out, tc) \<Rightarrow> (out, jl2, forks @ evs @ tc))
                     | (out, jl2, evs) \<Rightarrow> (out, jl2, forks @ evs))
                | (out, jl1, forks) \<Rightarrow> (out, jl1, forks))))"

subsection \<open>The descriptors of a pipeline\<close>

text \<open>The descriptors \<^verbatim>\<open>createJob\<close> opens before it forks: \<^verbatim>\<open>fds[k][0]\<close> and \<^verbatim>\<open>fds[k][1]\<close>,
  the read and the write end of pipe \<open>k\<close>, for \<open>k\<close> below the number of commands minus one;
  \<^verbatim>\<open>inputfd\<close> and \<^verbatim>\<open>outputfd\<close> when the pipeline names a file.\<close>

datatype descriptor = Pipe_read nat | Pipe_write nat | Inputfd | Outputfd

datatype fd_op = Dup2_stdin descriptor | Dup2_stdout descriptor | Close descriptor

definition pipe_descriptors :: "nat \<Rightarrow> descriptor list" where
  "pipe_descriptors ncommands = concat (map (\<lambda>k. [Pipe_read k, Pipe_write k]) [0..<ncommands - 1])"

text \<open>What the child of command \<open>i\<close> (of \<open>ncommands\<close>) does with the descriptors between
  \<^verbatim>\<open>fork\<close> and \<^verbatim>\<open>execvp\<close>; \<open>has_input\<close> is \<^verbatim>\<open>inputfd >= 0\<close>, \<open>has_output\<close> is
  \<^verbatim>\<open>outputfd >= 0\<close>. The bound of the closing loop, written \<^verbatim>\<open>t.commands.size() - 1\<close> in the
  source, is read as \<^verbatim>\<open>p.commands.size() - 1\<close>; its body closes \<^verbatim>\<open>fds[i]\<close>, the row of the
  child's own index, at every turn. For the last command that row is past the end of the
  array: \<open>Pipe_read i\<close> and \<open>Pipe_write i\<close> are then no descriptors of the pipeline.\<close>

definition child_fd_ops :: "nat \<Rightarrow> nat \<Rightarrow> bool \<Rightarrow> bool \<Rightarrow> fd_op list" where
  "child_fd_ops ncommands i has_input has_output =
     (if i = 0 \<and> has_input then [Dup2_stdin Inputfd, Close Inputfd]
      else if i > 0 then [Dup2_stdin (Pipe_read (i - 1)), Close (Pipe_read (i - 1))]
      else [])
     @ (if i = ncommands - 1 \<and> has_output then [Dup2_stdout Outputfd, Close Outputfd]
        else if i \<noteq> ncommands - 1 then [Dup2_stdout (Pipe_write i), Close (Pipe_write i)]
        else [])
     @ concat (replicate (ncommands - 1) [Close (Pipe_read i), Close (Pipe_write i)])"

text \<open>What the parent does with the descriptors after the last \<^verbatim>\<open>fork\<close>: the loop closes
  \<^verbatim>\<open>fds[i][0]\<close> at every turn, and one \<^verbatim>\<open>close(fds[i][1])\<close> follows the loop. The index
  \<^verbatim>\<open>i\<close> these statements name is not declared at that point of the source; it is an
  argument here.\<close>

definition parent_fd_ops :: "nat \<Rightarrow> nat \<Rightarrow> fd_op list" where
  "parent_fd_ops ncommands i =
     replicate (ncommands - 1) (Close (Pipe_read i)) @ [Close (Pipe_write i)]"

text \<open>The descriptors of the pipeline that a list of operations leaves open.\<close>

definition left_open :: "descriptor list \<Rightarrow> fd_op list \<Rightarrow> descriptor list" where
  "left_open opened ops = filter (\<lambda>d. Close d \<notin> set ops) opened"

subsection \<open>Example job lists and command lines\<close>

text \<open>The pipeline the parser makes of a builtin's line: one command, its name and its
  arguments.\<close>

definition builtin_line :: "string \<Rightarrow> string list \<Rightarrow> pipeline" where
  "builtin_line name args =
     \<lparr>commands = [\<lparr>command = name, tokens = args\<rparr>], input_path = [], output_path = [],
      background = False\<rparr>"

definition running :: "int \<Rightarrow> string \<Rightarrow> STSHProcess" where
  "running p name = \<lparr>pid = p, pstate = kRunning, pcommand = \<lparr>command = name, tokens = []\<rparr>\<rparr>"

text \<open>Job 1 is the pipeline \<^verbatim>\<open>ls | cat\<close>, in the background or in the foreground.\<close>

definition background_pair :: STSHJobList where
  "background_pair =
     [\<lparr>num = 1, jstate = kBackground, processes = [running 100 ''ls'', running 101 ''cat'']\<rparr>]"

definition foreground_pair :: STSHJobList where
  "foreground_pair =
     [\<lparr>num = 1, jstate = kForeground, processes = [running 100 ''ls'', running 101 ''cat'']\<rparr>]"



subsection \<open>The reaper, as the specification words it\<close>

text \<open>The state transition a status stands for: a normal or a signaled exit is Terminated,
  a stop is Stopped, a continue is Running.\<close>

definition transition_of :: "wstatus \<Rightarrow> STSHProcessState" where
  "transition_of status =
     (case status of
        Exited code \<Rightarrow> kTerminated
      | Signaled sig \<Rightarrow> kTerminated
      | Stopped sig \<Rightarrow> kStopped
      | Continued \<Rightarrow> kRunning)"

text \<open>A transition is applied to the process that owns the pid, and the job of that process
  is synchronized; there is no result when no job owns the pid.\<close>

definition apply_transition :: "STSHJobList \<Rightarrow> int \<Rightarrow> STSHProcessState \<Rightarrow> STSHJobList option" where
  "apply_transition jl p st =
     (case getJobWithProcess jl p of
        None \<Rightarrow> None
      | Some job \<Rightarrow>
          Some (synchronize
                  (update_job jl (num job) (\<lambda>j. j\<lparr>processes := setState_of p st (processes j)\<rparr>))
                  (num job)))"

text \<open>The transitions of the reaped pids, applied one after the other.\<close>

fun reap_all :: "STSHJobList \<Rightarrow> (int \<times> wstatus) list \<Rightarrow> STSHJobList option" where
  "reap_all jl [] = Some jl"
| "reap_all jl ((p, status) # rest) =
     (case apply_transition jl p (transition_of status) of
        None \<Rightarrow> None
      | Some jl' \<Rightarrow> reap_all jl' rest)"

text \<open>The pids an invocation reaps: what \<^verbatim>\<open>waitpid\<close> returns before its first result that is
  not positive.\<close>

definition reaped :: "(int \<times> wstatus) list \<Rightarrow> (int \<times> wstatus) list" where
  "reaped answers = takeWhile (\<lambda>(p, status). 0 < p) answers"

text \<open>Job 1 of \<open>foreground_pair\<close> after \<^verbatim>\<open>ls\<close> has exited and \<^verbatim>\<open>cat\<close> was stopped.\<close>

definition stopped_pair :: STSHJobList where
  "stopped_pair =
     [\<lparr>num = 1, jstate = kBackground,
       processes = [(running 100 ''ls'')\<lparr>pstate := kTerminated\<rparr>,
                    (running 101 ''cat'')\<lparr>pstate := kStopped\<rparr>]\<rparr>]"

text \<open>Job 1 of \<open>foreground_pair\<close> after \<^verbatim>\<open>ls\<close> has exited, \<^verbatim>\<open>cat\<close> still running.\<close>

definition ls_exited :: STSHJobList where
  "ls_exited =
     [\<lparr>num = 1, jstate = kForeground,
       processes = [(running 100 ''ls'')\<lparr>pstate := kTerminated\<rparr>, running 101 ''cat'']\<rparr>]"

subsection \<open>The foreground slot\<close>

text \<open>The jobs of the list whose scheduling class is Foreground.\<close>

definition foreground_jobs :: "STSHJobList \<Rightarrow> STSHJob list" where
  "foreground_jobs jl = filter (\<lambda>j. jstate j = kForeground) jl"

text \<open>A step from \<open>jl\<close> to \<open>jl'\<close> promotes no job: the foreground jobs are not more, their ids
  are ids of jobs that were in the foreground before, and ids that were distinct are still
  distinct.\<close>

definition no_promotion :: "STSHJobList \<Rightarrow> STSHJobList \<Rightarrow> bool" where
  "no_promotion jl jl' =
     (length (foreground_jobs jl') \<le> length (foreground_jobs jl)
      \<and> set (map num (foreground_jobs jl')) \<subseteq> set (map num (foreground_jobs jl))
      \<and> (distinct (map num jl) \<longrightarrow> distinct (map num jl')))"

text \<open>The ids of the list are distinct and only the job with the id \<open>n\<close> can be in the
  foreground.\<close>

definition slot_of :: "int \<Rightarrow> STSHJobList \<Rightarrow> bool" where
  "slot_of n jl = (distinct (map num jl) \<and> set (map num (foreground_jobs jl)) \<subseteq> {n})"

text \<open>The pipeline of one command, in the foreground or in the background.\<close>

definition launch_line :: "string \<Rightarrow> string list \<Rightarrow> bool \<Rightarrow> pipeline" where
  "launch_line name args bg =
     \<lparr>commands = [\<lparr>command = name, tokens = args\<rparr>], input_path = [], output_path = [],
      background = bg\<rparr>"

text \<open>An operating system whose \<open>i\<close>-th \<^verbatim>\<open>fork\<close> returns the pid \<open>first + i\<close>, whose
  \<^verbatim>\<open>tcsetpgrp\<close> answers \<open>tc\<close> for the process group \<open>first\<close> and succeeds for any other, and
  in which the shell's own process group is 50. \<^verbatim>\<open>EPERM\<close> is the \<^verbatim>\<open>errno\<close> of a
  \<^verbatim>\<open>tcsetpgrp\<close> whose process group does not exist in the session (the child has not yet
  called \<^verbatim>\<open>setpgid\<close>).\<close>

definition EPERM :: int where
  "EPERM = 1"

definition answers_from :: "int \<Rightarrow> int \<times> int \<Rightarrow> system" where
  "answers_from first tc =
     \<lparr>fork_answer = (\<lambda>i. first + int i),
      tcsetpgrp_answer = (\<lambda>g. if g = first then tc else (0, 0)),
      shell_pgid = 50\<rparr>"

text \<open>Job 1 is \<^verbatim>\<open>sleep 100\<close> (pid 100); job 2 is \<^verbatim>\<open>cat\<close> (pid 200).\<close>

definition job_sleep :: "STSHJobState \<Rightarrow> STSHJob" where
  "job_sleep st =
     \<lparr>num = 1, jstate = st,
      processes = [\<lparr>pid = 100, pstate = kRunning,
                    pcommand = \<lparr>command = ''sleep'', tokens = [''100'']\<rparr>\<rparr>]\<rparr>"

definition job_cat :: "STSHJobState \<Rightarrow> STSHProcessState \<Rightarrow> STSHJob" where
  "job_cat st ps =
     \<lparr>num = 2, jstate = st,
      processes = [\<lparr>pid = 200, pstate = ps, pcommand = \<lparr>command = ''cat'', tokens = []\<rparr>\<rparr>]\<rparr>"

section \<open>Properties of the shell\<close>

subsection \<open>The job list and the C library\<close>

lemma atoi_0: "atoi ''0'' = 0"
  by code_simp

lemma atoi_1: "atoi ''1'' = 1"
  by code_simp

lemma containsJob_getJob: "containsJob jl n \<longleftrightarrow> getJob jl n \<noteq> None"
  by (auto simp add: containsJob_def getJob_def find_None_iff)

lemma getJob_SomeD: "getJob jl n = Some job \<Longrightarrow> job \<in> set jl \<and> num job = n"
  by (auto simp add: getJob_def find_Some_iff)

subsection \<open>Terminal ownership\<close>

text \<open>Claim C9. When \<^verbatim>\<open>tcsetpgrp\<close> fails (it returns \<open>-1\<close>), \<^verbatim>\<open>transferTerminalControl\<close>
  throws the exception \<^verbatim>\<open>tcsetpgrp: A serious problem happens\<close>, except when \<^verbatim>\<open>errno\<close> is
  \<^verbatim>\<open>ENOTTY\<close> (the shell has no controlling terminal): then it returns and nothing is
  reported. A call that succeeds (it returns 0) returns as well.\<close>

theorem transferTerminalControl_failure:
  "transferTerminalControl (- 1, errno) pgid =
     (if errno = ENOTTY then (Returned (), [Tcsetpgrp pgid])
      else (Thrown (STSHException ''tcsetpgrp: A serious problem happens''), [Tcsetpgrp pgid]))
   \<and> transferTerminalControl (0, errno) pgid = (Returned (), [Tcsetpgrp pgid])"
  by (simp add: transferTerminalControl_def)

theorem transferTerminalControl_failure_witness:
  "transferTerminalControl (- 1, ENOTTY) 50 = (Returned (), [Tcsetpgrp 50])
   \<and> transferTerminalControl (- 1, EPERM) 50 =
       (Thrown (STSHException ''tcsetpgrp: A serious problem happens''), [Tcsetpgrp 50])
   \<and> transferTerminalControl (0, 0) 50 = (Returned (), [Tcsetpgrp 50])"
  using transferTerminalControl_failure[of ENOTTY 50] transferTerminalControl_failure[of EPERM 50]
    transferTerminalControl_failure[of 0 50]
  by (simp add: ENOTTY_def EPERM_def)

subsection \<open>The builtin \<^verbatim>\<open>bg\<close>\<close>

text \<open>Claim C8. \<^verbatim>\<open>bg\<close> with the id of a job of the list sends \<^verbatim>\<open>SIGCONT\<close> to every process
  of that job, one \<^verbatim>\<open>kill\<close> per process in pipeline order, and returns: the job list
  (the scheduling class of the job included) is unchanged, the shell does not sleep in
  \<^verbatim>\<open>sigsuspend\<close>, and \<^verbatim>\<open>tcsetpgrp\<close> is not called.\<close>

theorem builtinBg_valid:
  assumes "commands p = c # cs" and "token c 0 = Some arg" and "atoi arg \<noteq> 0"
    and "getJob jl (atoi arg) = Some job"
  shows "builtinBg jl p = (Returned (), jl, map (\<lambda>proc. Kill (pid proc) SIGCONT) (processes job))
    \<and> job \<in> set jl \<and> num job = atoi arg
    \<and> Sigsuspend \<notin> set (snd (snd (builtinBg jl p)))
    \<and> (\<forall>g. Tcsetpgrp g \<notin> set (snd (snd (builtinBg jl p))))"
proof -
  have "arg \<noteq> ''0''"
    using assms(3) atoi_0 by auto
  moreover have "containsJob jl (atoi arg)"
    using assms(4) by (simp add: containsJob_getJob)
  ultimately have "builtinBg jl p =
      (Returned (), jl, map (\<lambda>proc. Kill (pid proc) SIGCONT) (processes job))"
    using assms by (simp add: builtinBg_def)
  then show ?thesis
    using getJob_SomeD[OF assms(4)] by auto
qed

theorem builtinBg_valid_witness:
  "builtinBg background_pair (builtin_line ''bg'' [''1'']) =
     (Returned (), background_pair, [Kill 100 SIGCONT, Kill 101 SIGCONT])"
proof -
  have 1: "commands (builtin_line ''bg'' [''1'']) = [\<lparr>command = ''bg'', tokens = [''1'']\<rparr>]"
    by (simp add: builtin_line_def)
  have 2: "token \<lparr>command = ''bg'', tokens = [''1'']\<rparr> 0 = Some ''1''"
    by (simp add: token_def)
  have 3: "atoi ''1'' \<noteq> 0"
    by (simp add: atoi_1)
  have 4: "getJob background_pair (atoi ''1'') = Some (hd background_pair)"
    by (simp add: atoi_1 getJob_def background_pair_def)
  show ?thesis
    using builtinBg_valid[OF 1 2 3 4] by (simp add: background_pair_def running_def)
qed

subsection \<open>The diagnostics of \<^verbatim>\<open>fg\<close> and \<^verbatim>\<open>bg\<close>\<close>














subsection \<open>Forwarding \<^verbatim>\<open>SIGINT\<close> and \<^verbatim>\<open>SIGTSTP\<close>\<close>

lemma hasForegroundJob_get: "hasForegroundJob jl \<longleftrightarrow> getForegroundJob jl \<noteq> None"
  by (auto simp add: hasForegroundJob_def getForegroundJob_def find_None_iff list_ex_iff)

lemma getForegroundJob_SomeD:
  "getForegroundJob jl = Some job \<Longrightarrow> job \<in> set jl \<and> jstate job = kForeground"
  by (auto simp add: getForegroundJob_def find_Some_iff)

lemma sigIntStopHandler_Some:
  "getForegroundJob jl = Some job \<Longrightarrow>
     sigIntStopHandler jl sig = (Returned (), map (\<lambda>proc. Kill (pid proc) sig) (processes job))"
  by (simp add: sigIntStopHandler_def hasForegroundJob_get)

lemma sigIntStopHandler_None:
  "\<not> hasForegroundJob jl \<Longrightarrow> sigIntStopHandler jl sig = (Returned (), [])"
  by (simp add: sigIntStopHandler_def)

lemma sigIntStopHandler_targets:
  assumes "Kill target sig' \<in> set (snd (sigIntStopHandler jl sig))"
  shows "sig' = sig \<and> (\<exists>job \<in> set jl. jstate job = kForeground \<and> job_containsProcess job target)"
proof (cases "getForegroundJob jl")
  case None
  then have "sigIntStopHandler jl sig = (Returned (), [])"
    by (simp add: sigIntStopHandler_None hasForegroundJob_get)
  with assms show ?thesis by simp
next
  case (Some job)
  with assms have "Kill target sig' \<in> set (map (\<lambda>proc. Kill (pid proc) sig) (processes job))"
    by (simp add: sigIntStopHandler_Some)
  then have "sig' = sig \<and> job_containsProcess job target"
    by (auto simp add: job_containsProcess_def)
  with getForegroundJob_SomeD[OF Some] show ?thesis
    by blast
qed

text \<open>Claim C5, as stated, fails: with the two-process job \<^verbatim>\<open>ls | cat\<close> (pids 100 and
  101, process group 100) in the foreground, the handler calls \<^verbatim>\<open>kill\<close> twice, once for each
  pid, and makes no call on the negated process-group id.\<close>

theorem sigIntStopHandler_signals_members:
  "sigIntStopHandler foreground_pair SIGINT = (Returned (), [Kill 100 SIGINT, Kill 101 SIGINT])
   \<and> snd (sigIntStopHandler foreground_pair SIGINT) \<noteq> [Kill (- 100) SIGINT]"
  by (simp add: sigIntStopHandler_def foreground_pair_def hasForegroundJob_def
      getForegroundJob_def running_def)

text \<open>Claim C5, amended. When \<^verbatim>\<open>SIGINT\<close> or \<^verbatim>\<open>SIGTSTP\<close> is delivered while a
  foreground job exists, the handler sends that signal to every process of the foreground
  job, one \<^verbatim>\<open>kill\<close> on the pid of each process in pipeline order; with no foreground job it
  sends nothing. Every \<^verbatim>\<open>kill\<close> it makes carries the delivered signal and the pid of a
  process of a foreground job: the process group is never addressed by its negated id.\<close>

theorem sigIntStopHandler_forwards:
  "(\<forall>job. getForegroundJob jl = Some job \<longrightarrow>
      job \<in> set jl \<and> jstate job = kForeground \<and>
      sigIntStopHandler jl sig =
        (Returned (), map (\<lambda>proc. Kill (pid proc) sig) (processes job)))
   \<and> (hasForegroundJob jl \<longrightarrow> getForegroundJob jl \<noteq> None)
   \<and> (\<not> hasForegroundJob jl \<longrightarrow> sigIntStopHandler jl sig = (Returned (), []))
   \<and> (\<forall>target sig'. Kill target sig' \<in> set (snd (sigIntStopHandler jl sig)) \<longrightarrow>
        sig' = sig \<and> (\<exists>job \<in> set jl. jstate job = kForeground \<and> job_containsProcess job target))"
proof (intro conjI allI impI)
  fix target sig'
  assume "Kill target sig' \<in> set (snd (sigIntStopHandler jl sig))"
  from sigIntStopHandler_targets[OF this]
  show "sig' = sig" and "\<exists>job \<in> set jl. jstate job = kForeground \<and> job_containsProcess job target"
    by simp_all
qed (simp_all add: getForegroundJob_SomeD sigIntStopHandler_Some sigIntStopHandler_None
      hasForegroundJob_get)

theorem sigIntStopHandler_forwards_witness:
  "getForegroundJob foreground_pair = Some (hd foreground_pair)
   \<and> sigIntStopHandler foreground_pair SIGTSTP =
       (Returned (), [Kill 100 SIGTSTP, Kill 101 SIGTSTP])
   \<and> \<not> hasForegroundJob background_pair
   \<and> sigIntStopHandler background_pair SIGTSTP = (Returned (), [])"
proof -
  have g: "getForegroundJob foreground_pair = Some (hd foreground_pair)"
    by (simp add: getForegroundJob_def foreground_pair_def)
  have n: "\<not> hasForegroundJob background_pair"
    by (simp add: hasForegroundJob_def background_pair_def)
  have 1: "sigIntStopHandler foreground_pair SIGTSTP =
      (Returned (), map (\<lambda>proc. Kill (pid proc) SIGTSTP) (processes (hd foreground_pair)))"
    using g sigIntStopHandler_forwards[of foreground_pair SIGTSTP] by simp
  have 2: "sigIntStopHandler background_pair SIGTSTP = (Returned (), [])"
    using n sigIntStopHandler_forwards[of background_pair SIGTSTP] by simp
  show ?thesis
    using g n 1 2 by (simp add: foreground_pair_def running_def)
qed

subsection \<open>The reaper and a pid that no job owns\<close>

lemma getJobWithProcess_None: "\<not> containsProcess jl p \<Longrightarrow> getJobWithProcess jl p = None"
  by (simp add: containsProcess_def getJobWithProcess_def find_None_iff list_ex_iff)

lemma changeProcessStatus_unowned:
  "\<not> containsProcess jl p \<Longrightarrow> changeProcessStatus jl p stat = (Thrown NotFound, jl)"
  by (simp add: changeProcessStatus_def getJobWithProcess_None)

lemma reap_one_unowned:
  "\<not> containsProcess jl p \<Longrightarrow> reap_one jl p status = (Thrown NotFound, jl)"
  by (cases status)
    (simp_all add: reap_one_def and_then_def changeProcessStatus_unowned WIFEXITED_def
      WIFSIGNALED_def WIFSTOPPED_def WIFCONTINUED_def)

text \<open>Claim C6, as stated, fails: when \<^verbatim>\<open>waitpid\<close> returns the pid 7, which no job of the
  list owns, the handler ends by throwing the lookup's failure. The job list is unchanged.\<close>

theorem reaper_throws_on_unowned_pid:
  "sigchildHandler background_pair [(7, Exited 0)] = (Thrown NotFound, background_pair, [reaper_wait])"
  by (simp add: reap_one_unowned containsProcess_def job_containsProcess_def background_pair_def running_def)

text \<open>Claim C6, amended. If the reaper reaps a pid that no job of the list owns, the lookup
  of the owning job fails with NotFound and the handler ends with that failure: it leaves
  the job list as it was, and it makes no further call of \<^verbatim>\<open>waitpid\<close>, so the statuses
  still pending are not reaped in this invocation.\<close>

theorem sigchildHandler_unowned:
  assumes "0 < p" and "\<not> containsProcess jl p"
  shows "sigchildHandler jl ((p, status) # rest) = (Thrown NotFound, jl, [reaper_wait])"
  using assms by (simp add: reap_one_unowned)

theorem sigchildHandler_unowned_witness:
  "(0::int) < 7 \<and> \<not> containsProcess background_pair 7
   \<and> sigchildHandler background_pair [(7, Stopped 20), (100, Exited 0)] =
       (Thrown NotFound, background_pair, [reaper_wait])"
proof -
  have n: "\<not> containsProcess background_pair 7"
    by (simp add: containsProcess_def job_containsProcess_def background_pair_def running_def)
  show ?thesis
    using n sigchildHandler_unowned[of 7 background_pair "Stopped 20" "[(100, Exited 0)]"] by simp
qed

subsection \<open>The builtin \<^verbatim>\<open>fg\<close> and the terminal\<close>

lemma sigchildHandler_events:
  "set (snd (snd (sigchildHandler jl answers))) \<subseteq> {reaper_wait}"
proof (induction answers arbitrary: jl)
  case Nil
  then show ?case by simp
next
  case (Cons a answers)
  obtain p status where a: "a = (p, status)" by (cases a)
  show ?case
  proof (cases "reap_one jl p status")
    case (Pair out jl')
    show ?thesis
    proof (cases out)
      case (Returned u)
      obtain out2 jl2 evs where r: "sigchildHandler jl' answers = (out2, jl2, evs)"
        by (cases "sigchildHandler jl' answers")
      with Cons.IH[of jl'] have "set evs \<subseteq> {reaper_wait}" by simp
      with a Pair Returned r show ?thesis by simp
    qed (use a Pair in simp_all)
  qed
qed

lemma sigIntStopHandler_map:
  "\<exists>ps :: STSHProcess list.
     sigIntStopHandler jl sig = (Returned (), map (\<lambda>proc. Kill (pid proc) sig) ps)"
proof (cases "getForegroundJob jl")
  case None
  have "sigIntStopHandler jl sig =
      (Returned (), map (\<lambda>proc. Kill (pid proc) sig) ([] :: STSHProcess list))"
    using None by (simp add: sigIntStopHandler_None hasForegroundJob_get)
  then show ?thesis by blast
next
  case (Some job)
  have "sigIntStopHandler jl sig =
      (Returned (), map (\<lambda>proc. Kill (pid proc) sig) (processes job))"
    using Some by (rule sigIntStopHandler_Some)
  then show ?thesis by blast
qed

lemma sigIntStopHandler_returns: "fst (sigIntStopHandler jl sig) = Returned ()"
  using sigIntStopHandler_map[of jl sig] by auto

lemma sigIntStopHandler_events:
  assumes "e \<in> set (snd (sigIntStopHandler jl sig))"
  shows "\<exists>target. e = Kill target sig"
proof -
  obtain ps :: "STSHProcess list"
    where "sigIntStopHandler jl sig = (Returned (), map (\<lambda>proc. Kill (pid proc) sig) ps)"
    using sigIntStopHandler_map by blast
  with assms show ?thesis by auto
qed

lemma handle_signal_no_tcsetpgrp: "Tcsetpgrp g \<notin> set (snd (snd (handle_signal jl d)))"
proof (cases d)
  case (Delivered_SIGCHLD answers)
  then show ?thesis
    using sigchildHandler_events[of jl answers] by (auto simp add: reaper_wait_def)
next
  case Delivered_SIGINT
  then show ?thesis
    using sigIntStopHandler_events[of "Tcsetpgrp g" jl SIGINT]
    by (auto split: prod.splits)
next
  case Delivered_SIGTSTP
  then show ?thesis
    using sigIntStopHandler_events[of "Tcsetpgrp g" jl SIGTSTP]
    by (auto split: prod.splits)
next
  case Delivered_SIGQUIT
  then show ?thesis by simp
qed

lemma fg_wait_no_tcsetpgrp: "Tcsetpgrp g \<notin> set (snd (snd (fg_wait jl ds)))"
proof (induction ds arbitrary: jl)
  case Nil
  then show ?case by simp
next
  case (Cons d ds)
  obtain out jl' evs where h: "handle_signal jl d = (out, jl', evs)"
    by (cases "handle_signal jl d")
  have e: "Tcsetpgrp g \<notin> set evs" using handle_signal_no_tcsetpgrp[of g jl d] h by simp
  obtain out2 jl2 evs2 where r: "fg_wait jl' ds = (out2, jl2, evs2)"
    by (cases "fg_wait jl' ds")
  have e2: "Tcsetpgrp g \<notin> set evs2" using Cons.IH[of jl'] r by simp
  show ?case using h e r e2 by (cases out) simp_all
qed

lemma builtinFg_valid_path:
  assumes "commands p = c # cs" and "token c 0 = Some arg" and "atoi arg \<noteq> 0"
    and "getJob jl (atoi arg) = Some job"
  shows "builtinFg jl p ds =
     (case fg_resume jl job of
        (jl1, kills) \<Rightarrow>
          (case fg_wait jl1 ds of
             (out, jl2, evs) \<Rightarrow>
               (out, jl2,
                [Sigprocmask_block [SIGINT, SIGTSTP, SIGCONT, SIGCHLD]] @ kills @ evs
                @ on_return out [Sigprocmask_unblock [SIGINT, SIGTSTP, SIGCONT, SIGCHLD]])))"
proof -
  have "arg \<noteq> ''0''"
    using assms(3) atoi_0 by auto
  moreover have "containsJob jl (atoi arg)"
    using assms(4) by (simp add: containsJob_getJob)
  ultimately show ?thesis
    using assms by (simp add: builtinFg_def)
qed

lemma builtinFg_cases:
  "builtinFg jl p ds = (Undefined_read, jl, [])
   \<or> (\<exists>f. builtinFg jl p ds = (Thrown f, jl, []))
   \<or> (\<exists>f s. builtinFg jl p ds = (Thrown f, jl, [Cout s]))
   \<or> (\<exists>c cs arg job. commands p = c # cs \<and> token c 0 = Some arg \<and> atoi arg \<noteq> 0
         \<and> getJob jl (atoi arg) = Some job)"
proof (cases "commands p")
  case Nil
  then show ?thesis by (simp add: builtinFg_def)
next
  case (Cons c cs)
  show ?thesis
  proof (cases "token c 0")
    case None
    with Cons show ?thesis by (simp add: builtinFg_def)
  next
    case (Some arg)
    show ?thesis
    proof (cases "arg = ''0'' \<or> atoi arg = 0 \<or> \<not> containsJob jl (atoi arg)")
      case True
      with Cons Some show ?thesis by (auto simp add: builtinFg_def Let_def)
    next
      case False
      then obtain job where "getJob jl (atoi arg) = Some job"
        by (auto simp add: containsJob_getJob)
      with Cons Some False show ?thesis by blast
    qed
  qed
qed

lemma fg_resume_events:
  "e \<in> set (snd (fg_resume jl job)) \<Longrightarrow> \<exists>target. e = Kill target SIGCONT"
  by (auto simp add: fg_resume_def split: if_splits list.splits)

lemma builtinFg_no_tcsetpgrp: "Tcsetpgrp g \<notin> set (snd (snd (builtinFg jl p ds)))"
proof -
  consider "builtinFg jl p ds = (Undefined_read, jl, [])"
    | f where "builtinFg jl p ds = (Thrown f, jl, [])"
    | f s where "builtinFg jl p ds = (Thrown f, jl, [Cout s])"
    | c cs arg job where "commands p = c # cs" "token c 0 = Some arg" "atoi arg \<noteq> 0"
        "getJob jl (atoi arg) = Some job"
    using builtinFg_cases[of jl p ds] by blast
  then show ?thesis
  proof cases
    case 4
    obtain jl1 kills where r: "fg_resume jl job = (jl1, kills)"
      by (cases "fg_resume jl job")
    obtain out jl2 evs where w: "fg_wait jl1 ds = (out, jl2, evs)"
      by (cases "fg_wait jl1 ds")
    have k: "Tcsetpgrp g \<notin> set kills"
      using fg_resume_events[of "Tcsetpgrp g" jl job] r by auto
    have e: "Tcsetpgrp g \<notin> set evs"
      using fg_wait_no_tcsetpgrp[of g jl1 ds] w by simp
    have u: "Tcsetpgrp g \<notin> set (on_return out [Sigprocmask_unblock [SIGINT, SIGTSTP, SIGCONT, SIGCHLD]])"
      by (cases out) (simp_all add: on_return_def)
    show ?thesis
      using builtinFg_valid_path[OF 4, of ds] r w k e u by simp
  qed simp_all
qed

text \<open>Claim C2 at the line \<^verbatim>\<open>fg 1\<close>, with job 1 the background pipeline \<^verbatim>\<open>ls | cat\<close> (pids
  100 and 101) and both processes exiting while the shell sleeps: the signals are blocked,
  job 1 is promoted and \<^verbatim>\<open>SIGCONT\<close> goes to the negated process-group id, the shell sleeps
  until the job is gone and unblocks the signals. \<^verbatim>\<open>tcsetpgrp\<close> is not called, here or on any
  other input: the terminal is neither handed to the job nor taken back.\<close>

theorem builtinFg_leaves_terminal:
  "builtinFg background_pair (builtin_line ''fg'' [''1''])
     [Delivered_SIGCHLD [(100, Exited 0), (101, Exited 0)]] =
     (Returned (), [],
      [Sigprocmask_block [SIGINT, SIGTSTP, SIGCONT, SIGCHLD], Kill (- 100) SIGCONT, Sigsuspend,
       reaper_wait, reaper_wait, reaper_wait,
       Sigprocmask_unblock [SIGINT, SIGTSTP, SIGCONT, SIGCHLD]])
   \<and> (\<forall>jl p ds g. Tcsetpgrp g \<notin> set (snd (snd (builtinFg jl p ds))))"
proof -
  have "builtinFg background_pair (builtin_line ''fg'' [''1''])
     [Delivered_SIGCHLD [(100, Exited 0), (101, Exited 0)]] =
     (Returned (), [],
      [Sigprocmask_block [SIGINT, SIGTSTP, SIGCONT, SIGCHLD], Kill (- 100) SIGCONT, Sigsuspend,
       reaper_wait, reaper_wait, reaper_wait,
       Sigprocmask_unblock [SIGINT, SIGTSTP, SIGCONT, SIGCHLD]])"
    by code_simp
  then show ?thesis
    using builtinFg_no_tcsetpgrp by blast
qed

subsection \<open>Descriptors left open\<close>

text \<open>Claim C4 at the pipelines of two and of three commands. In \<^verbatim>\<open>a | b\<close> the child of
  \<^verbatim>\<open>b\<close> reaches \<^verbatim>\<open>execvp\<close> with the write end of the pipe open; in \<^verbatim>\<open>a | b | c\<close> the child
  of \<^verbatim>\<open>a\<close> keeps both ends of the second pipe, and the parent, whatever row its closing
  statements name, keeps a descriptor of the other pipe. The parent never closes the
  descriptors of the redirection files.\<close>

theorem descriptors_left_open:
  "left_open (pipe_descriptors 2) (child_fd_ops 2 1 False False) = [Pipe_write 0]
   \<and> left_open (pipe_descriptors 3) (child_fd_ops 3 0 False False) = [Pipe_read 1, Pipe_write 1]
   \<and> (\<forall>i. left_open (pipe_descriptors 3) (parent_fd_ops 3 i) \<noteq> [])
   \<and> (\<forall>n i. left_open [Inputfd, Outputfd] (parent_fd_ops n i) = [Inputfd, Outputfd])"
proof (intro conjI allI)
  show "left_open (pipe_descriptors 2) (child_fd_ops 2 1 False False) = [Pipe_write 0]"
    by code_simp
  show "left_open (pipe_descriptors 3) (child_fd_ops 3 0 False False) = [Pipe_read 1, Pipe_write 1]"
    by code_simp
next
  fix i :: nat
  have p: "pipe_descriptors 3 = [Pipe_read 0, Pipe_write 0, Pipe_read 1, Pipe_write 1]"
    by code_simp
  have "Pipe_read 0 \<in> set (left_open (pipe_descriptors 3) (parent_fd_ops 3 i))
      \<or> Pipe_read 1 \<in> set (left_open (pipe_descriptors 3) (parent_fd_ops 3 i))"
    unfolding p by (auto simp add: left_open_def parent_fd_ops_def)
  then show "left_open (pipe_descriptors 3) (parent_fd_ops 3 i) \<noteq> []"
    by auto
next
  fix n i :: nat
  show "left_open [Inputfd, Outputfd] (parent_fd_ops n i) = [Inputfd, Outputfd]"
    by (simp add: left_open_def parent_fd_ops_def)
qed

subsection \<open>The builtins \<^verbatim>\<open>slay\<close>, \<^verbatim>\<open>halt\<close> and \<^verbatim>\<open>cont\<close>\<close>
























subsection \<open>The reaper\<close>

lemma getJobWithProcess_SomeD:
  "getJobWithProcess jl p = Some job \<Longrightarrow> job \<in> set jl \<and> job_containsProcess job p"
  by (auto simp add: getJobWithProcess_def find_Some_iff)

lemma job_getProcess_owned: "job_containsProcess job p \<Longrightarrow> job_getProcess job p \<noteq> None"
  by (auto simp add: job_containsProcess_def job_getProcess_def find_None_iff)

lemma changeProcessStatus_apply:
  "changeProcessStatus jl p st =
     (case apply_transition jl p st of
        None \<Rightarrow> (Thrown NotFound, jl)
      | Some jl' \<Rightarrow> (Returned (), jl'))"
proof (cases "getJobWithProcess jl p")
  case None
  then show ?thesis
    by (simp add: changeProcessStatus_def apply_transition_def)
next
  case (Some job)
  then have own: "job_containsProcess job p"
    by (simp add: getJobWithProcess_SomeD)
  then obtain proc where "job_getProcess job p = Some proc"
    using job_getProcess_owned by blast
  with Some own show ?thesis
    by (simp add: changeProcessStatus_def apply_transition_def)
qed

lemma reap_one_apply:
  "reap_one jl p status =
     (case apply_transition jl p (transition_of status) of
        None \<Rightarrow> (Thrown NotFound, jl)
      | Some jl' \<Rightarrow> (Returned (), jl'))"
  by (cases status)
    (simp_all add: reap_one_def and_then_def changeProcessStatus_apply transition_of_def
      WIFEXITED_def WIFSIGNALED_def WIFSTOPPED_def WIFCONTINUED_def split: option.splits)

lemma sigchildHandler_completes:
  assumes "reap_all jl (reaped answers) = Some jl'"
  shows "sigchildHandler jl answers =
     (Returned (), jl', replicate (Suc (length (reaped answers))) reaper_wait)"
  using assms
proof (induction answers arbitrary: jl)
  case Nil
  then show ?case by (simp add: reaped_def)
next
  case (Cons a answers)
  obtain p status where a: "a = (p, status)" by (cases a)
  show ?case
  proof (cases "0 < p")
    case False
    with Cons.prems a show ?thesis by (simp add: reaped_def)
  next
    case True
    then have r: "reaped (a # answers) = (p, status) # reaped answers"
      using a by (simp add: reaped_def)
    with Cons.prems obtain jl1 where
      t: "apply_transition jl p (transition_of status) = Some jl1"
      and rest: "reap_all jl1 (reaped answers) = Some jl'"
      by (auto split: option.splits)
    from Cons.IH[OF rest] True a t r show ?thesis
      by (simp add: reap_one_apply)
  qed
qed

lemma sigchildHandler_stops:
  assumes "reap_all jl (reaped answers) = None"
  shows "fst (sigchildHandler jl answers) = Thrown NotFound
    \<and> length (snd (snd (sigchildHandler jl answers))) \<le> length (reaped answers)"
  using assms
proof (induction answers arbitrary: jl)
  case Nil
  then show ?case by (simp add: reaped_def)
next
  case (Cons a answers)
  obtain p status where a: "a = (p, status)" by (cases a)
  show ?case
  proof (cases "0 < p")
    case False
    with Cons.prems a show ?thesis by (simp add: reaped_def)
  next
    case True
    then have r: "reaped (a # answers) = (p, status) # reaped answers"
      using a by (simp add: reaped_def)
    show ?thesis
    proof (cases "apply_transition jl p (transition_of status)")
      case None
      with True a r show ?thesis
        by (simp add: reap_one_apply)
    next
      case (Some jl1)
      with Cons.prems r have rest: "reap_all jl1 (reaped answers) = None"
        by simp
      obtain out jl2 evs where s: "sigchildHandler jl1 answers = (out, jl2, evs)"
        by (cases "sigchildHandler jl1 answers")
      from Cons.IH[OF rest] s True a r Some show ?thesis
        by (simp add: reap_one_apply)
    qed
  qed
qed

lemma job_getProcess_setState_of:
  "job_getProcess (job\<lparr>processes := setState_of p st (processes job)\<rparr>) p' =
     (if p' = p then map_option (\<lambda>q. q\<lparr>pstate := st\<rparr>) (job_getProcess job p)
      else job_getProcess job p')"
proof -
  have "find (\<lambda>q. pid q = p') (setState_of p st ps) =
      (if p' = p then map_option (\<lambda>q. q\<lparr>pstate := st\<rparr>) (find (\<lambda>q. pid q = p) ps)
       else find (\<lambda>q. pid q = p') ps)" for ps
    by (induction ps) auto
  then show ?thesis
    by (simp add: job_getProcess_def)
qed

text \<open>Claim C1, as stated, fails for an invocation that reaps a pid no job owns. With
  \<^verbatim>\<open>ls | cat\<close> (pids 100 and 101) in the foreground and \<^verbatim>\<open>waitpid\<close> about to return 100
  (exited), 7 (exited) and 101 (stopped), the handler applies the first status and throws at
  the second: it has called \<^verbatim>\<open>waitpid\<close> twice, no call has returned a pid that is not
  positive, and the stop of pid 101 is neither reaped nor applied.\<close>

theorem reaper_stops_at_unowned_pid:
  "sigchildHandler foreground_pair [(100, Exited 0), (7, Exited 0), (101, Stopped 20)] =
     (Thrown NotFound, ls_exited,
      [Waitpid (- 1) [WNOHANG, WUNTRACED, WCONTINUED],
       Waitpid (- 1) [WNOHANG, WUNTRACED, WCONTINUED]])
   \<and> reaped [(100, Exited 0), (7, Exited 0), (101, Stopped 20)] =
       [(100, Exited 0), (7, Exited 0), (101, Stopped 20)]
   \<and> map_option pstate (job_getProcess (hd ls_exited) 101) = Some kRunning"
  by code_simp

text \<open>Claim C1, amended. An invocation of the \<^verbatim>\<open>SIGCHLD\<close> handler in which every reaped pid
  is owned by a job at the time it is reaped calls \<^verbatim>\<open>waitpid\<close> on any child (\<open>-1\<close>), with the
  flags \<^verbatim>\<open>WNOHANG\<close>, \<^verbatim>\<open>WUNTRACED\<close> and \<^verbatim>\<open>WCONTINUED\<close>, until a call returns a pid that is not
  positive: once for every pid it reaps and once more. It returns, and the job list it
  leaves is the one obtained by taking the reaped pids in order, mapping the status of each
  to its transition (exit or signaled exit to Terminated, stop to Stopped, continue to
  Running), applying the transition to the owning process and synchronizing the job of that
  process. An invocation that reaps a pid no job owns ends there with NotFound: it has made
  no more calls of \<^verbatim>\<open>waitpid\<close> than there are pids to reap, each with the same flags.
  Applying a transition sets the state of the process that \<^verbatim>\<open>getProcess\<close> finds for the pid
  and leaves the processes of the other pids as they are.\<close>

theorem sigchildHandler_reaps:
  "(\<forall>jl'. reap_all jl (reaped answers) = Some jl' \<longrightarrow>
      sigchildHandler jl answers =
        (Returned (), jl',
         replicate (Suc (length (reaped answers)))
           (Waitpid (- 1) [WNOHANG, WUNTRACED, WCONTINUED])))
   \<and> (reap_all jl (reaped answers) = None \<longrightarrow>
        fst (sigchildHandler jl answers) = Thrown NotFound
        \<and> length (snd (snd (sigchildHandler jl answers))) \<le> length (reaped answers)
        \<and> set (snd (snd (sigchildHandler jl answers)))
            \<subseteq> {Waitpid (- 1) [WNOHANG, WUNTRACED, WCONTINUED]})
   \<and> (\<forall>job p st p'.
        job_getProcess (job\<lparr>processes := setState_of p st (processes job)\<rparr>) p' =
          (if p' = p then map_option (\<lambda>q. q\<lparr>pstate := st\<rparr>) (job_getProcess job p)
           else job_getProcess job p'))"
proof (intro conjI allI impI)
  fix jl'
  assume "reap_all jl (reaped answers) = Some jl'"
  then show "sigchildHandler jl answers =
      (Returned (), jl',
       replicate (Suc (length (reaped answers))) (Waitpid (- 1) [WNOHANG, WUNTRACED, WCONTINUED]))"
    using sigchildHandler_completes[of jl answers jl'] by (simp add: reaper_wait_def)
next
  assume n: "reap_all jl (reaped answers) = None"
  show "fst (sigchildHandler jl answers) = Thrown NotFound"
    using sigchildHandler_stops[OF n] by simp
  show "length (snd (snd (sigchildHandler jl answers))) \<le> length (reaped answers)"
    using sigchildHandler_stops[OF n] by simp
  show "set (snd (snd (sigchildHandler jl answers)))
      \<subseteq> {Waitpid (- 1) [WNOHANG, WUNTRACED, WCONTINUED]}"
    using sigchildHandler_events[of jl answers] by (simp add: reaper_wait_def)
next
  fix job :: STSHJob and p st p'
  show "job_getProcess (job\<lparr>processes := setState_of p st (processes job)\<rparr>) p' =
      (if p' = p then map_option (\<lambda>q. q\<lparr>pstate := st\<rparr>) (job_getProcess job p)
       else job_getProcess job p')"
    by (rule job_getProcess_setState_of)
qed

theorem sigchildHandler_reaps_witness:
  "reap_all foreground_pair (reaped [(100, Exited 0), (101, Stopped 20), (0, Continued), (101, Exited 0)])
     = Some stopped_pair
   \<and> sigchildHandler foreground_pair [(100, Exited 0), (101, Stopped 20), (0, Continued), (101, Exited 0)]
     = (Returned (), stopped_pair,
        [Waitpid (- 1) [WNOHANG, WUNTRACED, WCONTINUED],
         Waitpid (- 1) [WNOHANG, WUNTRACED, WCONTINUED],
         Waitpid (- 1) [WNOHANG, WUNTRACED, WCONTINUED]])
   \<and> reap_all foreground_pair (reaped [(100, Signaled 2), (7, Exited 0), (101, Continued)]) = None
   \<and> fst (sigchildHandler foreground_pair [(100, Signaled 2), (7, Exited 0), (101, Continued)])
     = Thrown NotFound
   \<and> length (snd (snd (sigchildHandler foreground_pair
        [(100, Signaled 2), (7, Exited 0), (101, Continued)]))) \<le> 3"
proof -
  have r: "reaped [(100, Exited 0), (101, Stopped 20), (0, Continued), (101, Exited 0)]
      = [(100, Exited 0), (101, Stopped 20)]"
    by (simp add: reaped_def)
  have a: "reap_all foreground_pair [(100, Exited 0), (101, Stopped 20)] = Some stopped_pair"
    by code_simp
  have r2: "reaped [(100, Signaled 2), (7, Exited 0), (101, Continued)]
      = [(100, Signaled 2), (7, Exited 0), (101, Continued)]"
    by (simp add: reaped_def)
  have b: "reap_all foreground_pair [(100, Signaled 2), (7, Exited 0), (101, Continued)] = None"
    by code_simp
  have 1: "sigchildHandler foreground_pair
        [(100, Exited 0), (101, Stopped 20), (0, Continued), (101, Exited 0)]
      = (Returned (), stopped_pair,
         replicate (Suc (length [(100 :: int, Exited 0), (101, Stopped 20)]))
           (Waitpid (- 1) [WNOHANG, WUNTRACED, WCONTINUED]))"
    using sigchildHandler_reaps[of foreground_pair
        "[(100, Exited 0), (101, Stopped 20), (0, Continued), (101, Exited 0)]"] a
    by (simp add: r)
  have 2: "fst (sigchildHandler foreground_pair [(100, Signaled 2), (7, Exited 0), (101, Continued)])
        = Thrown NotFound
      \<and> length (snd (snd (sigchildHandler foreground_pair
          [(100, Signaled 2), (7, Exited 0), (101, Continued)]))) \<le> 3"
    using sigchildHandler_reaps[of foreground_pair
        "[(100, Signaled 2), (7, Exited 0), (101, Continued)]"] b
    by (simp add: r2)
  show ?thesis
    using a b 1 2 by (simp add: r r2 numeral_3_eq_3 numeral_2_eq_2)
qed

subsection \<open>At most one foreground job\<close>

lemma hasForegroundJob_iff: "hasForegroundJob jl \<longleftrightarrow> foreground_jobs jl \<noteq> []"
  by (auto simp add: hasForegroundJob_def foreground_jobs_def list_ex_iff filter_empty_conv)

lemma no_promotion_refl: "no_promotion jl jl"
  by (simp add: no_promotion_def)

lemma no_promotion_trans:
  assumes "no_promotion a b" and "no_promotion b c"
  shows "no_promotion a c"
proof -
  have "length (foreground_jobs c) \<le> length (foreground_jobs a)"
    using assms by (simp add: no_promotion_def)
  moreover have "set (map num (foreground_jobs c)) \<subseteq> set (map num (foreground_jobs a))"
    using assms unfolding no_promotion_def by (meson subset_trans)
  moreover have "distinct (map num a) \<longrightarrow> distinct (map num c)"
    using assms by (simp add: no_promotion_def)
  ultimately show ?thesis
    by (simp add: no_promotion_def)
qed

lemma length_update_job: "length (update_job jl n f) = length jl"
  by (simp add: update_job_def)

lemma num_update_job:
  "(\<And>j. num (f j) = num j) \<Longrightarrow> map num (update_job jl n f) = map num jl"
  by (simp add: update_job_def)

lemma foreground_update_job:
  "(\<And>j. jstate (f j) = jstate j) \<Longrightarrow>
     foreground_jobs (update_job jl n f) = update_job (foreground_jobs jl) n f"
  by (induction jl) (simp_all add: foreground_jobs_def update_job_def)

lemma no_promotion_update_job:
  "(\<And>j. num (f j) = num j) \<Longrightarrow> (\<And>j. jstate (f j) = jstate j) \<Longrightarrow>
     no_promotion jl (update_job jl n f)"
  by (simp add: no_promotion_def foreground_update_job num_update_job length_update_job)

lemma no_promotion_processes:
  "no_promotion jl (update_job jl n (\<lambda>j. j\<lparr>processes := g (processes j)\<rparr>))"
  by (simp add: no_promotion_update_job)

lemma no_promotion_filter: "no_promotion jl (filter P jl)"
proof -
  have "foreground_jobs (filter P jl) = filter P (foreground_jobs jl)"
    by (auto simp add: foreground_jobs_def intro: filter_cong)
  then show ?thesis
    by (auto simp add: no_promotion_def distinct_map_filter)
qed

lemma foreground_demote:
  "length (foreground_jobs (update_job jl n (\<lambda>j. j\<lparr>jstate := kBackground\<rparr>)))
     \<le> length (foreground_jobs jl)
   \<and> set (map num (foreground_jobs (update_job jl n (\<lambda>j. j\<lparr>jstate := kBackground\<rparr>))))
     \<subseteq> set (map num (foreground_jobs jl))"
  by (induction jl) (auto simp add: foreground_jobs_def update_job_def)

lemma no_promotion_demote:
  "no_promotion jl (update_job jl n (\<lambda>j. j\<lparr>jstate := kBackground\<rparr>))"
  using foreground_demote[of jl n] by (simp add: no_promotion_def num_update_job)

lemma no_promotion_synchronize: "no_promotion jl (synchronize jl n)"
  by (simp add: synchronize_def no_promotion_refl no_promotion_filter no_promotion_demote
      split: option.splits)

lemma no_promotion_apply_transition:
  "apply_transition jl p st = Some jl' \<Longrightarrow> no_promotion jl jl'"
  by (auto simp add: apply_transition_def split: option.splits
      intro: no_promotion_trans[OF no_promotion_processes no_promotion_synchronize])

lemma no_promotion_reap_one: "no_promotion jl (snd (reap_one jl p status))"
  by (simp add: reap_one_apply no_promotion_refl no_promotion_apply_transition
      split: option.splits)

lemma no_promotion_sigchildHandler: "no_promotion jl (fst (snd (sigchildHandler jl answers)))"
proof (induction answers arbitrary: jl)
  case Nil
  then show ?case by (simp add: no_promotion_refl)
next
  case (Cons a answers)
  obtain p status where a: "a = (p, status)" by (cases a)
  obtain out jl1 where r: "reap_one jl p status = (out, jl1)"
    by (cases "reap_one jl p status")
  have 1: "no_promotion jl jl1"
    using no_promotion_reap_one[of jl p status] r by simp
  obtain out2 jl2 evs where s: "sigchildHandler jl1 answers = (out2, jl2, evs)"
    by (cases "sigchildHandler jl1 answers")
  have 2: "no_promotion jl jl2"
    using no_promotion_trans[OF 1 Cons.IH[of jl1]] s by simp
  show ?case
    using a r s 1 2 by (cases out) (simp_all add: no_promotion_refl)
qed

lemma no_promotion_handle_signal: "no_promotion jl (fst (snd (handle_signal jl d)))"
  by (cases d)
    (simp_all add: no_promotion_refl no_promotion_sigchildHandler split: prod.splits)


lemma fresh_num_fresh: "\<not> containsJob jl (fresh_num jl)"
proof (cases "find (\<lambda>k. \<not> containsJob jl k) (map int [1..<length jl + 2])")
  case None
  define m where "m = length jl + 2"
  have "find (\<lambda>k. \<not> containsJob jl k) (map int [1..<m]) = None"
    using None by (simp only: m_def)
  then have "\<forall>k \<in> set (map int [1..<m]). containsJob jl k"
    using find_None_iff[of "\<lambda>k. \<not> containsJob jl k" "map int [1..<m]"] by blast
  then have "set (map int [1..<m]) \<subseteq> set (map num jl)"
    unfolding containsJob_def by blast
  then have "card (set (map int [1..<m])) \<le> card (set (map num jl))"
    by (intro card_mono) simp_all
  moreover have "inj_on int (set [1..<m])"
    by (rule inj_onI) simp
  then have "distinct (map int [1..<m])"
    by (metis distinct_map distinct_upt)
  then have "card (set (map int [1..<m])) = length (map int [1..<m])"
    by (rule distinct_card)
  then have "card (set (map int [1..<m])) = m - 1"
    by simp
  moreover have "card (set (map num jl)) \<le> length jl"
    using card_length[of "map num jl"] by simp
  ultimately have "m - 1 \<le> length jl"
    by simp
  then show ?thesis
    by (simp add: m_def)
next
  case (Some k)
  then have "fresh_num jl = k"
    by (simp only: fresh_num_def option.case)
  moreover have "\<not> containsJob jl k"
    using Some find_Some_iff[of "\<lambda>k. \<not> containsJob jl k" "map int [1..<length jl + 2]" k] by blast
  ultimately show ?thesis
    by simp
qed

lemma distinct_insort_key_num:
  "distinct (map num (insort_key num x jl)) \<longleftrightarrow> num x \<notin> set (map num jl) \<and> distinct (map num jl)"
  by (induction jl) (auto simp add: set_insort_key)

lemma addJob_invariant:
  assumes "addJob jl st = (jl0, n)" and "distinct (map num jl)" and "\<not> hasForegroundJob jl"
  shows "distinct (map num jl0)"
    and "set (map num (foreground_jobs jl0)) \<subseteq> {n}"
    and "st = kBackground \<Longrightarrow> \<not> hasForegroundJob jl0"
proof -
  have n: "n = fresh_num jl"
    and jl0: "jl0 = insort_key num \<lparr>num = n, jstate = st, processes = []\<rparr> jl"
    using assms(1) by (auto simp add: addJob_def Let_def)
  have fresh: "n \<notin> set (map num jl)"
    using fresh_num_fresh[of jl] n by (simp add: containsJob_def)
  show "distinct (map num jl0)"
    using fresh assms(2) by (simp add: jl0 distinct_insort_key_num)
  have none: "foreground_jobs jl = []"
    using assms(3) by (simp add: hasForegroundJob_iff)
  have s: "set (foreground_jobs jl0) \<subseteq> {\<lparr>num = n, jstate = st, processes = []\<rparr>}"
    using none by (auto simp add: jl0 foreground_jobs_def set_insort_key filter_empty_conv)
  then show "set (map num (foreground_jobs jl0)) \<subseteq> {n}"
    by auto
  show "st = kBackground \<Longrightarrow> \<not> hasForegroundJob jl0"
    using s by (auto simp add: hasForegroundJob_iff foreground_jobs_def filter_empty_conv)
qed

lemma no_promotion_fork_commands:
  "no_promotion jl (fst (snd (fork_commands fk n i cs jl)))"
proof (induction cs arbitrary: i jl)
  case Nil
  then show ?case by (simp add: no_promotion_refl)
next
  case (Cons c cs)
  let ?jl' = "update_job jl n (\<lambda>j. j\<lparr>processes := processes j @ [\<lparr>pid = fk i, pstate = kRunning, pcommand = c\<rparr>]\<rparr>)"
  have 1: "no_promotion jl ?jl'"
    by (rule no_promotion_processes)
  obtain out jl2 evs where r: "fork_commands fk n (Suc i) cs ?jl' = (out, jl2, evs)"
    by (cases "fork_commands fk n (Suc i) cs ?jl'")
  have 2: "no_promotion jl jl2"
    using no_promotion_trans[OF 1 Cons.IH[where i="Suc i" and jl="?jl'"]] r by simp
  show ?case
    using 2 r by (simp add: addProcess_def Let_def no_promotion_update_job)
qed

lemma slot_of_no_promotion: "slot_of n jl \<Longrightarrow> no_promotion jl jl' \<Longrightarrow> slot_of n jl'"
  unfolding slot_of_def no_promotion_def by (meson subset_trans)

lemma slot_of_at_most_one: "slot_of n jl \<Longrightarrow> length (foreground_jobs jl) \<le> 1"
proof -
  assume s: "slot_of n jl"
  have d: "distinct (map num (foreground_jobs jl))"
    using s by (simp add: slot_of_def foreground_jobs_def distinct_map_filter)
  have "length (foreground_jobs jl) = card (set (map num (foreground_jobs jl)))"
    using distinct_card[OF d] by simp
  also have "\<dots> \<le> card {n}"
    using s by (intro card_mono) (simp_all add: slot_of_def)
  finally show ?thesis by simp
qed

lemma slot_of_left:
  assumes "slot_of n jl" and "\<not> is_foreground jl n"
  shows "\<not> hasForegroundJob jl"
proof
  assume h: "hasForegroundJob jl"
  then obtain job where g: "getForegroundJob jl = Some job"
    by (auto simp add: hasForegroundJob_get)
  then have "job \<in> set (foreground_jobs jl)"
    using getForegroundJob_SomeD[OF g] by (simp add: foreground_jobs_def)
  then have "num job = n"
    using assms(1) by (auto simp add: slot_of_def)
  with h g assms(2) show False
    by (simp add: is_foreground_def)
qed

lemma launch_wait_slot:
  assumes "slot_of n jl"
  shows "slot_of n (fst (snd (launch_wait n jl ds)))
    \<and> (fst (launch_wait n jl ds) = Returned () \<longrightarrow> \<not> hasForegroundJob (fst (snd (launch_wait n jl ds))))"
  using assms
proof (induction ds arbitrary: jl)
  case Nil
  then show ?case by (simp add: slot_of_left)
next
  case (Cons d ds)
  show ?case
  proof (cases "is_foreground jl n")
    case False
    with Cons.prems show ?thesis by (simp add: slot_of_left)
  next
    case True
    obtain out jl1 evs where h: "handle_signal jl d = (out, jl1, evs)"
      by (cases "handle_signal jl d")
    have s1: "slot_of n jl1"
      using slot_of_no_promotion[OF Cons.prems no_promotion_handle_signal[of jl d]] h by simp
    obtain out2 jl2 evs2 where r: "launch_wait n jl1 ds = (out2, jl2, evs2)"
      by (cases "launch_wait n jl1 ds")
    show ?thesis
      using True h s1 r Cons.IH[OF s1] by (cases out) simp_all
  qed
qed

lemma fg_wait_no_promotion:
  "no_promotion jl (fst (snd (fg_wait jl ds)))
    \<and> (fst (fg_wait jl ds) = Returned () \<longrightarrow> \<not> hasForegroundJob (fst (snd (fg_wait jl ds))))"
proof (induction ds arbitrary: jl)
  case Nil
  then show ?case by (simp add: no_promotion_refl)
next
  case (Cons d ds)
  show ?case
  proof (cases "hasForegroundJob jl")
    case False
    then show ?thesis by (simp add: no_promotion_refl)
  next
    case True
    obtain out jl1 evs where h: "handle_signal jl d = (out, jl1, evs)"
      by (cases "handle_signal jl d")
    have s1: "no_promotion jl jl1"
      using no_promotion_handle_signal[of jl d] h by simp
    obtain out2 jl2 evs2 where r: "fg_wait jl1 ds = (out2, jl2, evs2)"
      by (cases "fg_wait jl1 ds")
    have s2: "no_promotion jl jl2"
      using no_promotion_trans[OF s1] Cons.IH[of jl1] r by simp
    show ?thesis
      using True h s1 s2 r Cons.IH[of jl1] by (cases out) simp_all
  qed
qed


lemma update_job_absent: "n \<notin> set (map num jl) \<Longrightarrow> update_job jl n f = jl"
  by (induction jl) (simp_all add: update_job_def)

lemma promote_one:
  assumes "distinct (map num jl)" and "foreground_jobs jl = []"
  shows "length (foreground_jobs (update_job jl n (\<lambda>j. j\<lparr>jstate := kForeground\<rparr>))) \<le> 1"
  using assms
proof (induction jl)
  case Nil
  then show ?case by (simp add: update_job_def foreground_jobs_def)
next
  case (Cons j js)
  have rest: "foreground_jobs js = []" and dj: "distinct (map num js)"
    and bg: "jstate j \<noteq> kForeground"
    using Cons.prems by (auto simp add: foreground_jobs_def split: if_splits)
  show ?case
  proof (cases "num j = n")
    case True
    then have "n \<notin> set (map num js)"
      using Cons.prems(1) by auto
    then have "update_job js n (\<lambda>j. j\<lparr>jstate := kForeground\<rparr>) = js"
      by (rule update_job_absent)
    then have "update_job (j # js) n (\<lambda>j. j\<lparr>jstate := kForeground\<rparr>) = j\<lparr>jstate := kForeground\<rparr> # js"
      using True by (simp add: update_job_def)
    then show ?thesis
      using rest by (simp add: foreground_jobs_def)
  next
    case False
    then have "update_job (j # js) n (\<lambda>j. j\<lparr>jstate := kForeground\<rparr>)
        = j # update_job js n (\<lambda>j. j\<lparr>jstate := kForeground\<rparr>)"
      by (simp add: update_job_def)
    then show ?thesis
      using bg Cons.IH[OF dj rest] by (simp add: foreground_jobs_def)
  qed
qed

lemma fg_resume_slot:
  assumes "distinct (map num jl)" and "\<not> hasForegroundJob jl"
  shows "length (foreground_jobs (fst (fg_resume jl job))) \<le> 1
    \<and> distinct (map num (fst (fg_resume jl job)))"
proof -
  have none: "foreground_jobs jl = []"
    using assms(2) by (simp add: hasForegroundJob_iff)
  show ?thesis
    using assms(1) none promote_one[OF assms(1) none, of "num job"]
    by (simp add: fg_resume_def num_update_job split: list.splits)
qed

lemma launch_foreground_slot:
  assumes "slot_of n jl"
  shows "slot_of n (fst (snd (launch_foreground n g jl os ds)))
    \<and> (fst (launch_foreground n g jl os ds) = Returned () \<longrightarrow>
         \<not> hasForegroundJob (fst (snd (launch_foreground n g jl os ds))))"
proof -
  obtain out tc where h: "(if hasForegroundJob jl
            then transferTerminalControl (tcsetpgrp_answer os g) g
            else (Returned (), [])) = (out, tc)"
    by (cases "if hasForegroundJob jl
            then transferTerminalControl (tcsetpgrp_answer os g) g
            else (Returned (), [])")
  obtain out2 jl2 evs where w: "launch_wait n jl ds = (out2, jl2, evs)"
    by (cases "launch_wait n jl ds")
  show ?thesis
    using assms launch_wait_slot[OF assms, of ds] w
    unfolding launch_foreground_def h
    by (cases out) simp_all
qed

lemma createJob_slot:
  assumes "distinct (map num jl)" and "\<not> hasForegroundJob jl"
  shows "length (foreground_jobs (fst (snd (createJob jl p os ds)))) \<le> 1
    \<and> distinct (map num (fst (snd (createJob jl p os ds))))
    \<and> (fst (createJob jl p os ds) = Returned () \<longrightarrow>
         \<not> hasForegroundJob (fst (snd (createJob jl p os ds))))"
proof (cases "commands p")
  case Nil
  then show ?thesis
    using assms by (simp add: createJob_def hasForegroundJob_iff)
next
  case (Cons c0 cs)
  obtain jl0 n where a: "addJob jl (if background p then kBackground else kForeground) = (jl0, n)"
    by (cases "addJob jl (if background p then kBackground else kForeground)")
  obtain out1 jl1 forks where f: "fork_commands (fork_answer os) n 0 (c0 # cs) jl0 = (out1, jl1, forks)"
    by (cases "fork_commands (fork_answer os) n 0 (c0 # cs) jl0")
  have s0: "slot_of n jl0"
    using addJob_invariant(1,2)[OF a assms] by (simp add: slot_of_def)
  have np: "no_promotion jl0 jl1"
    using no_promotion_fork_commands[of jl0 "fork_answer os" n 0 "c0 # cs"] f by simp
  have s1: "slot_of n jl1"
    using slot_of_no_promotion[OF s0 np] .
  have b1: "background p \<Longrightarrow> \<not> hasForegroundJob jl1"
  proof -
    assume "background p"
    then have "foreground_jobs jl0 = []"
      using addJob_invariant(3)[OF a assms] by (simp add: hasForegroundJob_iff)
    then have "foreground_jobs jl1 = []"
      using np by (simp add: no_promotion_def)
    then show ?thesis by (simp add: hasForegroundJob_iff)
  qed
  obtain out2 jl2 evs where m: "(if \<not> background p
                           then launch_foreground n (fork_answer os 0) jl1 os ds
                           else launch_background n jl1) = (out2, jl2, evs)"
    by (cases "if \<not> background p
                           then launch_foreground n (fork_answer os 0) jl1 os ds
                           else launch_background n jl1")
  have s2: "slot_of n jl2 \<and> (out2 = Returned () \<longrightarrow> \<not> hasForegroundJob jl2)"
  proof (cases "background p")
    case True
    then have "jl2 = jl1"
      using m by (auto simp add: launch_background_def split: option.splits)
    then show ?thesis
      using s1 b1[OF True] by simp
  next
    case False
    then show ?thesis
      using launch_foreground_slot[OF s1, of "fork_answer os 0" os ds] m by simp
  qed
  obtain out3 tc where t: "transferTerminalControl (tcsetpgrp_answer os (shell_pgid os)) (shell_pgid os) = (out3, tc)"
    by (cases "transferTerminalControl (tcsetpgrp_answer os (shell_pgid os)) (shell_pgid os)")
  have r: "fst (snd (createJob jl p os ds)) = (if out1 = Returned () then jl2 else jl1)
    \<and> (fst (createJob jl p os ds) = Returned () \<longrightarrow> out1 = Returned () \<and> out2 = Returned ())"
    using Cons a f m t
    by (cases out1; cases out2) (simp_all add: createJob_def del: fork_commands.simps)
  show ?thesis
    using r s1 s2 slot_of_at_most_one[of n jl1] slot_of_at_most_one[of n jl2]
    by (auto simp add: slot_of_def)
qed

lemma builtinFg_slot:
  assumes "distinct (map num jl)" and "\<not> hasForegroundJob jl"
  shows "length (foreground_jobs (fst (snd (builtinFg jl p ds)))) \<le> 1
    \<and> distinct (map num (fst (snd (builtinFg jl p ds))))
    \<and> (fst (builtinFg jl p ds) = Returned () \<longrightarrow>
         \<not> hasForegroundJob (fst (snd (builtinFg jl p ds))))"
proof -
  have none: "foreground_jobs jl = []"
    using assms(2) by (simp add: hasForegroundJob_iff)
  consider "builtinFg jl p ds = (Undefined_read, jl, [])"
    | f where "builtinFg jl p ds = (Thrown f, jl, [])"
    | f s where "builtinFg jl p ds = (Thrown f, jl, [Cout s])"
    | c cs arg job where "commands p = c # cs" "token c 0 = Some arg" "atoi arg \<noteq> 0"
        "getJob jl (atoi arg) = Some job"
    using builtinFg_cases[of jl p ds] by blast
  then show ?thesis
  proof cases
    case 4
    obtain jl1 kills where r: "fg_resume jl job = (jl1, kills)"
      by (cases "fg_resume jl job")
    obtain out jl2 evs where w: "fg_wait jl1 ds = (out, jl2, evs)"
      by (cases "fg_wait jl1 ds")
    have 1: "length (foreground_jobs jl1) \<le> 1 \<and> distinct (map num jl1)"
      using fg_resume_slot[OF assms, of job] r by simp
    have 2: "no_promotion jl1 jl2 \<and> (out = Returned () \<longrightarrow> \<not> hasForegroundJob jl2)"
      using fg_wait_no_promotion[of jl1 ds] w by simp
    have "builtinFg jl p ds = (out, jl2,
        [Sigprocmask_block [SIGINT, SIGTSTP, SIGCONT, SIGCHLD]] @ kills @ evs
        @ on_return out [Sigprocmask_unblock [SIGINT, SIGTSTP, SIGCONT, SIGCHLD]])"
      using builtinFg_valid_path[OF 4, of ds] r w by simp
    then show ?thesis
      using 1 2 by (auto simp add: no_promotion_def)
  qed (use assms none in simp_all)
qed

text \<open>Claim C3, as stated, fails. From the empty job list: \<^verbatim>\<open>sleep 100 &\<close> is launched
  (job 1, in the background); \<^verbatim>\<open>cat\<close> is launched in the foreground and \<^verbatim>\<open>tcsetpgrp\<close> fails
  with \<^verbatim>\<open>EPERM\<close>, so \<^verbatim>\<open>createJob\<close> throws before it waits and job 2 stays in the foreground;
  then \<^verbatim>\<open>fg 1\<close> promotes job 1 and the shell sleeps with two foreground jobs in the list.\<close>

theorem second_foreground_job:
  "fst (createJob [] (launch_line ''sleep'' [''100''] True) (answers_from 100 (0, 0)) [])
     = Returned ()
   \<and> fst (snd (createJob [] (launch_line ''sleep'' [''100''] True) (answers_from 100 (0, 0)) []))
     = [job_sleep kBackground]
   \<and> fst (createJob [job_sleep kBackground] (launch_line ''cat'' [] False)
            (answers_from 200 (- 1, EPERM)) [])
     = Thrown (STSHException ''tcsetpgrp: A serious problem happens'')
   \<and> fst (snd (createJob [job_sleep kBackground] (launch_line ''cat'' [] False)
                 (answers_from 200 (- 1, EPERM)) []))
     = [job_sleep kBackground, job_cat kForeground kRunning]
   \<and> fst (builtinFg [job_sleep kBackground, job_cat kForeground kRunning]
            (builtin_line ''fg'' [''1'']) [])
     = Suspended
   \<and> fst (snd (builtinFg [job_sleep kBackground, job_cat kForeground kRunning]
                 (builtin_line ''fg'' [''1'']) []))
     = [job_sleep kForeground, job_cat kForeground kRunning]
   \<and> length (foreground_jobs [job_sleep kForeground, job_cat kForeground kRunning]) = 2"
  by code_simp

text \<open>Claim C3, amended. Neither \<^verbatim>\<open>createJob\<close> nor \<^verbatim>\<open>builtinFg\<close> looks whether the
  foreground slot is free; what holds is this. Started on a job list with distinct ids and
  no foreground job, the launch of a pipeline and the builtin \<^verbatim>\<open>fg\<close> leave a list with
  distinct ids and at most one foreground job, however they end (returned, thrown, asleep in
  \<^verbatim>\<open>sigsuspend\<close>), and a list with no foreground job when they return. A signal handler
  never adds a foreground job and keeps the ids distinct.\<close>

theorem foreground_slot:
  assumes "distinct (map num jl)" and "\<not> hasForegroundJob jl"
  shows "length (foreground_jobs (fst (snd (createJob jl p os ds)))) \<le> 1
    \<and> distinct (map num (fst (snd (createJob jl p os ds))))
    \<and> (fst (createJob jl p os ds) = Returned () \<longrightarrow>
         \<not> hasForegroundJob (fst (snd (createJob jl p os ds))))
    \<and> length (foreground_jobs (fst (snd (builtinFg jl q es)))) \<le> 1
    \<and> distinct (map num (fst (snd (builtinFg jl q es))))
    \<and> (fst (builtinFg jl q es) = Returned () \<longrightarrow>
         \<not> hasForegroundJob (fst (snd (builtinFg jl q es))))
    \<and> (\<forall>jl' d. length (foreground_jobs (fst (snd (handle_signal jl' d))))
          \<le> length (foreground_jobs jl')
          \<and> (distinct (map num jl') \<longrightarrow> distinct (map num (fst (snd (handle_signal jl' d))))))"
proof -
  have "\<And>jl' d. length (foreground_jobs (fst (snd (handle_signal jl' d))))
          \<le> length (foreground_jobs jl')
          \<and> (distinct (map num jl') \<longrightarrow> distinct (map num (fst (snd (handle_signal jl' d)))))"
    using no_promotion_handle_signal by (simp add: no_promotion_def)
  then show ?thesis
    using createJob_slot[OF assms, of p os ds] builtinFg_slot[OF assms, of q es] by simp
qed

theorem foreground_slot_witness:
  "distinct (map num [job_sleep kBackground]) \<and> \<not> hasForegroundJob [job_sleep kBackground]
   \<and> fst (createJob [job_sleep kBackground] (launch_line ''cat'' [] False) (answers_from 200 (0, 0))
            [Delivered_SIGTSTP, Delivered_SIGCHLD [(200, Stopped 20)]]) = Returned ()
   \<and> \<not> hasForegroundJob
         (fst (snd (createJob [job_sleep kBackground] (launch_line ''cat'' [] False)
                      (answers_from 200 (0, 0))
                      [Delivered_SIGTSTP, Delivered_SIGCHLD [(200, Stopped 20)]])))
   \<and> fst (builtinFg [job_sleep kBackground] (builtin_line ''fg'' [''1''])
            [Delivered_SIGTSTP, Delivered_SIGCHLD [(100, Signaled 2)]]) = Returned ()
   \<and> \<not> hasForegroundJob
         (fst (snd (builtinFg [job_sleep kBackground] (builtin_line ''fg'' [''1''])
                      [Delivered_SIGTSTP, Delivered_SIGCHLD [(100, Signaled 2)]])))
   \<and> length (foreground_jobs
        (fst (snd (createJob [job_sleep kBackground] (launch_line ''cat'' [] False)
                     (answers_from 200 (0, 0)) [Delivered_SIGINT])))) \<le> 1"
proof -
  have d: "distinct (map num [job_sleep kBackground])"
    by simp
  have n: "\<not> hasForegroundJob [job_sleep kBackground]"
    by (simp add: hasForegroundJob_def job_sleep_def)
  have c: "fst (createJob [job_sleep kBackground] (launch_line ''cat'' [] False)
      (answers_from 200 (0, 0)) [Delivered_SIGTSTP, Delivered_SIGCHLD [(200, Stopped 20)]]) = Returned ()"
    by code_simp
  have f: "fst (builtinFg [job_sleep kBackground] (builtin_line ''fg'' [''1''])
      [Delivered_SIGTSTP, Delivered_SIGCHLD [(100, Signaled 2)]]) = Returned ()"
    by code_simp
  show ?thesis
    using d n c f
      foreground_slot[OF d n, of "launch_line ''cat'' [] False" "answers_from 200 (0, 0)"
        "[Delivered_SIGTSTP, Delivered_SIGCHLD [(200, Stopped 20)]]" "builtin_line ''fg'' [''1'']"
        "[Delivered_SIGTSTP, Delivered_SIGCHLD [(100, Signaled 2)]]"]
      foreground_slot[OF d n, of "launch_line ''cat'' [] False" "answers_from 200 (0, 0)"
        "[Delivered_SIGINT]" "builtin_line ''fg'' [''1'']" "[]"]
    by simp
qed

end
